theory Spec2Isabelle
  imports Complex_Main
begin

section \<open>JavaScript values used by the server\<close>

text \<open>
  The server (\<open>server/index.js\<close>) works on JavaScript strings and numbers. Strings are
  modelled as \<open>string\<close> (code points 0..255). A JavaScript number is a double: the model
  keeps the three non-finite values apart from the finite ones, and treats a finite value
  as an exact rational (every quantity the handlers compute from a finite value is an
  integer far below \<open>2^53\<close>, where double arithmetic is exact).
\<close>

datatype jsnum = NaN | PosInf | NegInf | Fin rat

text \<open>\<open>Number.isFinite(n)\<close>\<close>

fun isFinite :: "jsnum \<Rightarrow> bool" where
  "isFinite (Fin q) = True"
| "isFinite _ = False"

text \<open>\<open>Math.trunc\<close> on a finite value: rounding towards zero.\<close>

definition trunc :: "rat \<Rightarrow> int" where
  "trunc q = (if 0 \<le> q then \<lfloor>q\<rfloor> else \<lceil>q\<rceil>)"

text \<open>Truthiness of a number: \<open>NaN\<close> and \<open>0\<close> are falsy.\<close>

fun truthy_num :: "jsnum \<Rightarrow> bool" where
  "truthy_num NaN = False"
| "truthy_num (Fin q) = (q \<noteq> 0)"
| "truthy_num _ = True"

subsection \<open>Errors\<close>

text \<open>
  A thrown JavaScript error: an instance of \<open>Error\<close> (as \<open>new Error('fetch_timeout')\<close>
  of \<open>withTimeout\<close>) or of \<open>TypeError\<close> (as the rejection of \<open>fetch\<close> on a transport
  failure), with its message. \<open>error_text\<close> is \<open>err?.message || String(err)\<close>, where
  \<open>String(err)\<close> of an error with an empty message is the name of its class.
\<close>

datatype error_class = ErrorClass | TypeErrorClass

fun class_name :: "error_class \<Rightarrow> string" where
  "class_name ErrorClass = ''Error''"
| "class_name TypeErrorClass = ''TypeError''"

datatype js_error = JsError error_class string

fun error_text :: "js_error \<Rightarrow> string" where
  "error_text (JsError cls msg) = (if msg \<noteq> [] then msg else class_name cls)"

fun message_of :: "js_error \<Rightarrow> string" where
  "message_of (JsError cls msg) = msg"

subsection \<open>Strings\<close>

definition code_of :: "char \<Rightarrow> nat" where
  "code_of c = of_char c"

text \<open>\<open>String.prototype.toLowerCase\<close> on code points 0..255.\<close>

definition lower_char :: "char \<Rightarrow> char" where
  "lower_char c =
     (let n = code_of c in
      if (65 \<le> n \<and> n \<le> 90) \<or> (192 \<le> n \<and> n \<le> 222 \<and> n \<noteq> 215)
      then char_of (n + 32) else c)"

definition toLowerCase :: "string \<Rightarrow> string" where
  "toLowerCase s = map lower_char s"

text \<open>The white space of \<open>trim()\<close> and of the white-space class of regular expressions.\<close>

definition is_space :: "char \<Rightarrow> bool" where
  "is_space c = (code_of c \<in> set [9, 10, 11, 12, 13, 32, 160])"

definition trim :: "string \<Rightarrow> string" where
  "trim s = rev (dropWhile is_space (rev (dropWhile is_space s)))"

text \<open>\<open>s.startsWith(p)\<close> and \<open>s.includes(p)\<close>.\<close>

fun starts_with :: "string \<Rightarrow> string \<Rightarrow> bool" where
  "starts_with s [] = True"
| "starts_with [] (p # ps) = False"
| "starts_with (c # cs) (p # ps) = (c = p \<and> starts_with cs ps)"

fun includes_str :: "string \<Rightarrow> string \<Rightarrow> bool" where
  "includes_str [] p = (p = [])"
| "includes_str (c # cs) p = (starts_with (c # cs) p \<or> includes_str cs p)"

text \<open>\<open>s.replaceAll('"', '""')\<close>\<close>

definition double_quotes :: "string \<Rightarrow> string" where
  "double_quotes s = concat (map (\<lambda>c. if c = CHR 0x22 then [CHR 0x22, CHR 0x22] else [c]) s)"

text \<open>Decimal rendering of a non-negative integer inside a template string.\<close>

definition digit_char :: "nat \<Rightarrow> char" where
  "digit_char d = char_of (48 + d)"

fun show_nat :: "nat \<Rightarrow> string" where
  "show_nat n = (if n < 10 then [digit_char n] else show_nat (n div 10) @ [digit_char (n mod 10)])"

declare show_nat.simps [simp del]

text \<open>
  \<open>s.split\<close> at runs of commas and white space: the pieces between maximal runs of
  separators. A separator at
  the start or at the end leaves an empty first or last piece, as in JavaScript.
\<close>

definition is_list_sep :: "char \<Rightarrow> bool" where
  "is_list_sep c = (c = CHR '','' \<or> is_space c)"

fun split_runs :: "bool \<Rightarrow> string \<Rightarrow> string \<Rightarrow> string list" where
  "split_runs in_run cur [] = [rev cur]"
| "split_runs in_run cur (c # cs) =
     (if is_list_sep c
      then (if in_run then split_runs True cur cs else rev cur # split_runs True [] cs)
      else split_runs False (c # cur) cs)"

section \<open>Helpers of the server\<close>

text \<open>
  \<open>normalizeString(v)\<close>. The argument \<open>None\<close> stands for \<open>null\<close> or \<open>undefined\<close>,
  \<open>Some s\<close> for a value whose \<open>String(v)\<close> is \<open>s\<close>.
\<close>

definition normalizeString :: "string option \<Rightarrow> string option" where
  "normalizeString v =
     (case v of None \<Rightarrow> None
      | Some raw \<Rightarrow> (let s = trim raw in if s \<noteq> [] then Some s else None))"

definition splitList :: "string option \<Rightarrow> string list" where
  "splitList v =
     (case normalizeString v of None \<Rightarrow> []
      | Some s \<Rightarrow> filter (\<lambda>x. x \<noteq> []) (map trim (split_runs False [] s)))"

text \<open>
  \<open>clampInt(v, min, max, fallback)\<close>. The first argument is the value of \<open>Number(v)\<close>:
  \<open>NaN\<close> for \<open>undefined\<close> and for text that is not a number, \<open>Fin 0\<close> for \<open>null\<close>.
\<close>

definition clampInt :: "jsnum \<Rightarrow> int \<Rightarrow> int \<Rightarrow> int \<Rightarrow> int" where
  "clampInt n lo hi fallback =
     (case n of Fin q \<Rightarrow> min hi (max lo (trunc q)) | _ \<Rightarrow> fallback)"

definition quoteIdent :: "string \<Rightarrow> string" where
  "quoteIdent s = [CHR 0x22] @ double_quotes s @ [CHR 0x22]"

section \<open>Table metadata and the column role resolver\<close>

record column =
  column_name :: string
  data_type :: string
  udt_name :: string

record table_ref =
  schema :: string
  table :: string

record table_meta =
  tableRef :: table_ref
  tableSql :: string
  columns :: "column list"
  byName :: "string \<rightharpoonup> column"

definition quoteTable :: "table_ref \<Rightarrow> string" where
  "quoteTable r = quoteIdent (schema r) @ ''.'' @ quoteIdent (table r)"

text \<open>
  The result of \<open>getDomainsTableMeta\<close> for a catalog answer \<open>cols\<close>: \<open>byName\<close> is filled
  in catalog order under the lower-cased name, so a later column replaces an earlier one
  with the same key.
\<close>

definition loadMeta :: "table_ref \<Rightarrow> column list \<Rightarrow> table_meta" where
  "loadMeta r cols =
     \<lparr> tableRef = r, tableSql = quoteTable r, columns = cols,
       byName = map_of (rev (map (\<lambda>c. (toLowerCase (column_name c), c)) cols)) \<rparr>"

fun findFirstColumn :: "table_meta \<Rightarrow> string list \<Rightarrow> string option" where
  "findFirstColumn meta [] = None"
| "findFirstColumn meta (name # rest) =
     (case byName meta (toLowerCase name) of
        Some c \<Rightarrow> Some (column_name c)
      | None \<Rightarrow> findFirstColumn meta rest)"

text \<open>
  The regular expressions of the resolver are alternations of plain words, such as
  \<open>/(drop|delete|deletion)/\<close>: a pattern is the list of its words, and it matches a string
  that contains one of them.
\<close>

definition re_test :: "string list \<Rightarrow> string \<Rightarrow> bool" where
  "re_test alts s = list_ex (\<lambda>w. includes_str s w) alts"

definition findColumnsLike :: "table_meta \<Rightarrow> string list \<Rightarrow> string list" where
  "findColumnsLike meta re =
     filter (\<lambda>n. re_test re (toLowerCase n)) (map column_name (columns meta))"

text \<open>\<open>a || b\<close> on column names: the empty string and \<open>null\<close> are falsy.\<close>

definition or_else :: "string option \<Rightarrow> string option \<Rightarrow> string option" where
  "or_else a b = (case a of Some s \<Rightarrow> (if s \<noteq> [] then Some s else b) | None \<Rightarrow> b)"

definition first_elem :: "string list \<Rightarrow> string option" where
  "first_elem xs = (case xs of [] \<Rightarrow> None | x # _ \<Rightarrow> Some x)"

text \<open>The local \<open>pick(cands, fallbackRe)\<close> of the search handler.\<close>

definition pick :: "table_meta \<Rightarrow> string list \<Rightarrow> string list option \<Rightarrow> string option" where
  "pick meta cands fallbackRe =
     or_else (or_else (findFirstColumn meta cands)
                (case fallbackRe of Some re \<Rightarrow> first_elem (findColumnsLike meta re) | None \<Rightarrow> None))
       None"

definition has :: "table_meta \<Rightarrow> string \<Rightarrow> bool" where
  "has meta name = (byName meta (toLowerCase name) \<noteq> None)"

section \<open>The search handler: compiling criteria\<close>

text \<open>
  The criteria after their conversion. A field that the handler reads through
  \<open>normalizeString\<close> or \<open>splitList\<close> is \<open>None\<close> when the member is absent or \<open>null\<close>, and
  otherwise holds its \<open>String\<close> value. \<open>expiringWithinDays\<close> holds
  \<open>Number(criteria.expiringWithinDays)\<close>, which is read only when a lifecycle state is
  asked for; the two safety flags hold the result of the comparison \<open>=== true\<close>.
\<close>

record criteria =
  domainStartsWith :: "string option"
  domainEndsWith :: "string option"
  tld :: "string option"
  lifecycleState :: "string option"
  expiredState :: "string option"
  expiringWithinDays :: jsnum
  creationDateFrom :: "string option"
  creationDateTo :: "string option"
  ageYearsFrom :: "string option"
  ageYearsTo :: "string option"
  countryByIp :: "string option"
  registrarContains :: "string option"
  technologiesContains :: "string option"
  responseStatusContains :: "string option"
  detectedHostsMin :: "string option"
  detectedHostsMax :: "string option"
  expirationFrom :: "string option"
  expirationTo :: "string option"
  waybackMinSnapshots :: "string option"
  safeSpamhausOnly :: bool
  safeViewsTotalOnly :: bool

text \<open>A value bound to a positional parameter of the query.\<close>

datatype sqlval = SText string | STextList "string list" | SInt int | SNum jsnum

text \<open>The arrays \<open>where\<close> and \<open>values\<close> of the handler, filled by \<open>add\<close>.\<close>

record qstate =
  where_frags :: "string list"
  values_list :: "sqlval list"

definition add :: "string \<Rightarrow> sqlval list \<Rightarrow> qstate \<Rightarrow> qstate" where
  "add fragment vs st =
     st\<lparr> where_frags := where_frags st @ [fragment], values_list := values_list st @ vs \<rparr>"

text \<open>The placeholder \<open>$k\<close> with \<open>k = values.length + 1\<close>.\<close>

definition next_param :: "qstate \<Rightarrow> string" where
  "next_param st = ''$'' @ show_nat (length (values_list st) + 1)"

text \<open>The columns the handler resolves before it compiles anything.\<close>

record roles =
  domainColumn :: string
  tldColumn :: "string option"
  createdColumn :: "string option"
  expiresColumn :: "string option"
  scheduledDeleteColumn :: "string option"
  deletedAtColumn :: "string option"
  deletedFlagColumn :: "string option"
  statusColumn :: "string option"

definition resolve_roles :: "table_meta \<Rightarrow> string \<Rightarrow> roles" where
  "resolve_roles meta dc =
     \<lparr> domainColumn = dc,
       tldColumn = pick meta [''tld'', ''zone'', ''tld_suffix''] None,
       createdColumn = pick meta
         [''domain_creation_date'', ''creation_date'', ''created_at'', ''registered_at'',
          ''registration_date'']
         (Some [''creation'', ''created'', ''registered'', ''registration'']),
       expiresColumn = pick meta
         [''domain_expiration_date'', ''expiration_date'', ''expires_at'', ''expires_on'',
          ''expiry_date'', ''expire_date'']
         (Some [''expiration'', ''expire'', ''expires'', ''expiry'']),
       scheduledDeleteColumn = pick meta
         [''drop_date'', ''delete_date'', ''deletion_date'', ''pending_delete_date'',
          ''scheduled_delete_date'']
         (Some [''drop'', ''delete'', ''deletion'']),
       deletedAtColumn = pick meta [''deleted_at'', ''dropped_at'', ''removed_at''] None,
       deletedFlagColumn = pick meta
         [''is_deleted'', ''deleted'', ''is_dropped'', ''dropped'', ''is_removed'', ''removed'']
         None,
       statusColumn = pick meta
         [''status'', ''domain_status'', ''state'', ''domain_state'', ''lifecycle''] None \<rparr>"

text \<open>The SQL literals \<open>''\<close>, \<open>'0'\<close> and \<open>' days'\<close>, \<open>' years'\<close>.\<close>

definition sq :: string where
  "sq = [CHR 0x27]"

definition nullif_text :: "string \<Rightarrow> string" where
  "nullif_text col = ''NULLIF('' @ col @ ''::text, '' @ sq @ sq @ '')''"

definition coalesce_int :: "string \<Rightarrow> string" where
  "coalesce_int col = ''COALESCE('' @ nullif_text col @ '', '' @ sq @ ''0'' @ sq @ '')::int''"

fun join_str :: "string \<Rightarrow> string list \<Rightarrow> string" where
  "join_str sep [] = []"
| "join_str sep [x] = x"
| "join_str sep (x # y # ys) = x @ sep @ join_str sep (y # ys)"

subsection \<open>Domain prefix, suffix and TLD\<close>

definition add_domainStartsWith :: "roles \<Rightarrow> criteria \<Rightarrow> qstate \<Rightarrow> qstate" where
  "add_domainStartsWith r crit st =
     (case normalizeString (domainStartsWith crit) of
        Some s \<Rightarrow> add (quoteIdent (domainColumn r) @ '' ILIKE '' @ next_param st) [SText (s @ ''%'')] st
      | None \<Rightarrow> st)"

definition add_domainEndsWith :: "roles \<Rightarrow> criteria \<Rightarrow> qstate \<Rightarrow> qstate" where
  "add_domainEndsWith r crit st =
     (case normalizeString (domainEndsWith crit) of
        Some s \<Rightarrow> add (quoteIdent (domainColumn r) @ '' ILIKE '' @ next_param st) [SText (''%'' @ s)] st
      | None \<Rightarrow> st)"

text \<open>\<open>String(t).trim().replace(/^\./, '').toLowerCase()\<close> and the pattern built from it.\<close>

definition strip_dot :: "string \<Rightarrow> string" where
  "strip_dot s = (case s of c # cs \<Rightarrow> (if c = CHR ''.'' then cs else s) | [] \<Rightarrow> [])"

definition tld_pattern :: "string \<Rightarrow> string" where
  "tld_pattern t = ''%.'' @ toLowerCase (strip_dot (trim t))"

definition add_tld :: "roles \<Rightarrow> criteria \<Rightarrow> qstate \<Rightarrow> qstate" where
  "add_tld r crit st =
     (let tlds = splitList (tld crit) in
      if tlds \<noteq> [] then
        (case tldColumn r of
           Some tc \<Rightarrow> add (quoteIdent tc @ '' = ANY('' @ next_param st @ ''::text[])'') [STextList tlds] st
         | None \<Rightarrow>
             add (''LOWER('' @ quoteIdent (domainColumn r) @ '') LIKE ANY('' @ next_param st @ ''::text[])'')
               [STextList (map tld_pattern tlds)] st)
      else st)"

subsection \<open>The lifecycle filter\<close>

definition deleted_patterns :: "string list" where
  "deleted_patterns = [''%deleted%'', ''%dropped%'', ''%removed%'']"

definition expiring_patterns :: "string list" where
  "expiring_patterns = [''%expir%'', ''%pending%'', ''%to_delete%'']"

definition active_patterns :: "string list" where
  "active_patterns = [''active'', ''ok'', ''registered'', ''%active%'']"

text \<open>\<open>col::text ILIKE ANY($k::text[])\<close> with the next free placeholder.\<close>

definition status_ilike :: "string \<Rightarrow> qstate \<Rightarrow> string" where
  "status_ilike col st = col @ ''::text ILIKE ANY('' @ next_param st @ ''::text[])''"

text \<open>The predicate that a date column lies in \<open>[NOW(), NOW() + $k days)\<close>.\<close>

definition range_fragment :: "string \<Rightarrow> qstate \<Rightarrow> string" where
  "range_fragment col st =
     nullif_text col @ ''::timestamp >= NOW() AND '' @ nullif_text col @
     ''::timestamp < (NOW() + ('' @ next_param st @ ''::int || '' @ sq @ '' days'' @ sq @ '')::interval)''"

definition is_boolean_column :: "table_meta \<Rightarrow> string \<Rightarrow> bool" where
  "is_boolean_column meta col =
     (case byName meta (toLowerCase col) of Some info \<Rightarrow> data_type info = ''boolean'' | None \<Rightarrow> False)"

definition deletedClauses :: "table_meta \<Rightarrow> roles \<Rightarrow> string list" where
  "deletedClauses meta r =
     (case deletedFlagColumn r of
        Some fc \<Rightarrow>
          [if is_boolean_column meta fc then quoteIdent fc @ '' IS TRUE''
           else coalesce_int (quoteIdent fc) @ '' > 0'']
      | None \<Rightarrow> []) @
     (case deletedAtColumn r of
        Some ac \<Rightarrow> [nullif_text (quoteIdent ac) @ '' IS NOT NULL'']
      | None \<Rightarrow> [])"

definition expiring_days :: "jsnum \<Rightarrow> int" where
  "expiring_days daysNum = (case daysNum of Fin q \<Rightarrow> max 1 (trunc q) | _ \<Rightarrow> 30)"

definition lifecycle_of :: "criteria \<Rightarrow> string option" where
  "lifecycle_of crit =
     map_option toLowerCase
       (normalizeString (case lifecycleState crit of Some v \<Rightarrow> Some v | None \<Rightarrow> expiredState crit))"

definition add_lifecycle :: "table_meta \<Rightarrow> roles \<Rightarrow> criteria \<Rightarrow> qstate \<Rightarrow> qstate" where
  "add_lifecycle meta r crit st0 =
     (case lifecycle_of crit of
        None \<Rightarrow> st0
      | Some lifecycle \<Rightarrow>
          (let days = expiring_days (expiringWithinDays crit);
               statusColSql = map_option quoteIdent (statusColumn r);
               expiresSql = map_option quoteIdent (expiresColumn r);
               schedDelSql = map_option quoteIdent (scheduledDeleteColumn r);
               clauses = deletedClauses meta r;
               deletedStatusFragment =
                 (if clauses = [] then map_option (\<lambda>c. status_ilike c st0) statusColSql else None);
               st1 = (case deletedStatusFragment of
                        Some f \<Rightarrow> add f [STextList deleted_patterns] st0
                      | None \<Rightarrow> st0);
               deletedFragment =
                 (if clauses \<noteq> [] then Some (''('' @ join_str '' OR '' clauses @ '')'')
                  else deletedStatusFragment);
               notDeletedFragment = map_option (\<lambda>f. ''NOT ('' @ f @ '')'') deletedFragment
           in
           if lifecycle = ''deleted'' then
             (case deletedFragment of Some f \<Rightarrow> add f [] st1 | None \<Rightarrow> st1)
           else if lifecycle = ''expiring'' then
             (let st2 = (case notDeletedFragment of Some f \<Rightarrow> add f [] st1 | None \<Rightarrow> st1) in
              case schedDelSql of
                Some sd \<Rightarrow> add (range_fragment sd st2) [SInt days] st2
              | None \<Rightarrow>
                  (case expiresSql of
                     Some ex \<Rightarrow> add (range_fragment ex st2) [SInt days] st2
                   | None \<Rightarrow>
                       (case statusColSql of
                          Some sc \<Rightarrow> add (status_ilike sc st2) [STextList expiring_patterns] st2
                        | None \<Rightarrow> st2)))
           else if lifecycle = ''active'' then
             (let st2 = (case notDeletedFragment of Some f \<Rightarrow> add f [] st1 | None \<Rightarrow> st1);
                  st3 = (case expiresSql of
                           Some ex \<Rightarrow> add (nullif_text ex @ ''::timestamp >= NOW()'') [] st2
                         | None \<Rightarrow> st2)
              in case statusColSql of
                   Some sc \<Rightarrow> add (status_ilike sc st3) [STextList active_patterns] st3
                 | None \<Rightarrow> st3)
           else st1))"

subsection \<open>Date, age and free-text criteria\<close>

definition add_creationDateFrom :: "roles \<Rightarrow> criteria \<Rightarrow> qstate \<Rightarrow> qstate" where
  "add_creationDateFrom r crit st =
     (case (normalizeString (creationDateFrom crit), createdColumn r) of
        (Some d, Some cc) \<Rightarrow>
          add (nullif_text (quoteIdent cc) @ ''::date >= '' @ next_param st) [SText d] st
      | _ \<Rightarrow> st)"

definition add_creationDateTo :: "roles \<Rightarrow> criteria \<Rightarrow> qstate \<Rightarrow> qstate" where
  "add_creationDateTo r crit st =
     (case (normalizeString (creationDateTo crit), createdColumn r) of
        (Some d, Some cc) \<Rightarrow>
          add (nullif_text (quoteIdent cc) @ ''::date <= '' @ next_param st) [SText d] st
      | _ \<Rightarrow> st)"

text \<open>
  The age filter reads \<open>Number(s)\<close> of a string; \<open>num\<close> stands for that conversion.
  \<open>years_of\<close> is \<open>Number.isFinite(a) ? Math.max(0, Math.trunc(a)) : null\<close>.
\<close>

definition years_of :: "(string \<Rightarrow> jsnum) \<Rightarrow> string option \<Rightarrow> int option" where
  "years_of num v =
     (case v of
        None \<Rightarrow> None
      | Some s \<Rightarrow> (case num s of Fin q \<Rightarrow> Some (max 0 (trunc q)) | _ \<Rightarrow> None))"

definition age_fragment :: "string \<Rightarrow> string \<Rightarrow> qstate \<Rightarrow> string" where
  "age_fragment cc cmp st =
     nullif_text (quoteIdent cc) @ ''::date '' @ cmp @ '' (CURRENT_DATE - ('' @ next_param st @
     ''::int || '' @ sq @ '' years'' @ sq @ '')::interval)''"

definition add_ageYears :: "(string \<Rightarrow> jsnum) \<Rightarrow> roles \<Rightarrow> criteria \<Rightarrow> qstate \<Rightarrow> qstate" where
  "add_ageYears num r crit st =
     (case createdColumn r of
        None \<Rightarrow> st
      | Some cc \<Rightarrow>
          (let lo = years_of num (normalizeString (ageYearsFrom crit));
               hi = years_of num (normalizeString (ageYearsTo crit));
               swapped = (case (lo, hi) of (Some a, Some b) \<Rightarrow> a > b | _ \<Rightarrow> False);
               minYears = (if swapped then hi else lo);
               maxYears = (if swapped then lo else hi);
               st1 = (case minYears of
                        Some y \<Rightarrow> add (age_fragment cc ''<='' st) [SInt y] st
                      | None \<Rightarrow> st)
           in case maxYears of
                Some y \<Rightarrow> add (age_fragment cc ''>='' st1) [SInt y] st1
              | None \<Rightarrow> st1))"

text \<open>A filter on a column that is used only under its literal name.\<close>

definition add_literal ::
  "table_meta \<Rightarrow> string \<Rightarrow> string option \<Rightarrow> (qstate \<Rightarrow> string) \<Rightarrow> (string \<Rightarrow> sqlval) \<Rightarrow>
   qstate \<Rightarrow> qstate" where
  "add_literal meta col v frag val st =
     (case normalizeString v of
        Some s \<Rightarrow> (if has meta col then add (frag st) [val s] st else st)
      | None \<Rightarrow> st)"

definition add_countryByIp :: "table_meta \<Rightarrow> criteria \<Rightarrow> qstate \<Rightarrow> qstate" where
  "add_countryByIp meta crit =
     add_literal meta ''country_by_ip'' (countryByIp crit)
       (\<lambda>st. ''country_by_ip = '' @ next_param st) SText"

definition add_registrarContains :: "table_meta \<Rightarrow> criteria \<Rightarrow> qstate \<Rightarrow> qstate" where
  "add_registrarContains meta crit =
     add_literal meta ''registrar'' (registrarContains crit)
       (\<lambda>st. ''registrar ILIKE '' @ next_param st) (\<lambda>s. SText (''%'' @ s @ ''%''))"

definition add_technologiesContains :: "table_meta \<Rightarrow> criteria \<Rightarrow> qstate \<Rightarrow> qstate" where
  "add_technologiesContains meta crit =
     add_literal meta ''technologies'' (technologiesContains crit)
       (\<lambda>st. ''technologies ILIKE '' @ next_param st) (\<lambda>s. SText (''%'' @ s @ ''%''))"

definition add_responseStatusContains :: "table_meta \<Rightarrow> criteria \<Rightarrow> qstate \<Rightarrow> qstate" where
  "add_responseStatusContains meta crit =
     add_literal meta ''response_status'' (responseStatusContains crit)
       (\<lambda>st. ''response_status ILIKE '' @ next_param st) (\<lambda>s. SText (''%'' @ s @ ''%''))"

definition add_detectedHostsMin ::
  "(string \<Rightarrow> jsnum) \<Rightarrow> table_meta \<Rightarrow> criteria \<Rightarrow> qstate \<Rightarrow> qstate" where
  "add_detectedHostsMin num meta crit =
     add_literal meta ''detected_hosts'' (detectedHostsMin crit)
       (\<lambda>st. ''NULLIF(detected_hosts, '' @ sq @ sq @ '')::int >= '' @ next_param st)
       (\<lambda>s. SNum (num s))"

definition add_detectedHostsMax ::
  "(string \<Rightarrow> jsnum) \<Rightarrow> table_meta \<Rightarrow> criteria \<Rightarrow> qstate \<Rightarrow> qstate" where
  "add_detectedHostsMax num meta crit =
     add_literal meta ''detected_hosts'' (detectedHostsMax crit)
       (\<lambda>st. ''NULLIF(detected_hosts, '' @ sq @ sq @ '')::int <= '' @ next_param st)
       (\<lambda>s. SNum (num s))"

definition add_expirationFrom :: "roles \<Rightarrow> criteria \<Rightarrow> qstate \<Rightarrow> qstate" where
  "add_expirationFrom r crit st =
     (case (normalizeString (expirationFrom crit), expiresColumn r) of
        (Some d, Some ec) \<Rightarrow>
          add (nullif_text (quoteIdent ec) @ ''::timestamp >= '' @ next_param st) [SText d] st
      | _ \<Rightarrow> st)"

definition add_expirationTo :: "roles \<Rightarrow> criteria \<Rightarrow> qstate \<Rightarrow> qstate" where
  "add_expirationTo r crit st =
     (case (normalizeString (expirationTo crit), expiresColumn r) of
        (Some d, Some ec) \<Rightarrow>
          add (nullif_text (quoteIdent ec) @ ''::timestamp <= '' @ next_param st) [SText d] st
      | _ \<Rightarrow> st)"

subsection \<open>Wayback and blacklist columns\<close>

definition waybackColumn :: "table_meta \<Rightarrow> string option" where
  "waybackColumn meta =
     or_else (or_else (findFirstColumn meta [''wayback_snapshots'', ''wayback_total'', ''wayback_count''])
                (first_elem (findColumnsLike meta [''wayback'', ''archive''])))
       None"

definition spamhausColumn :: "table_meta \<Rightarrow> string option" where
  "spamhausColumn meta =
     or_else (or_else (findFirstColumn meta
                 [''spamhaus_listed'', ''spamhouse_listed'', ''spamhaus'', ''spamhouse''])
                (first_elem (findColumnsLike meta [''spamhaus'', ''spamhouse''])))
       None"

definition viewsTotalColumn :: "table_meta \<Rightarrow> string option" where
  "viewsTotalColumn meta =
     or_else (or_else (findFirstColumn meta
                 [''views_total_listed'', ''viewstotal_listed'', ''views_total'', ''viewstotal''])
                (first_elem (findColumnsLike meta [''viewstotal'', ''views_total''])))
       None"

definition add_waybackMin ::
  "(string \<Rightarrow> jsnum) \<Rightarrow> table_meta \<Rightarrow> criteria \<Rightarrow> qstate \<Rightarrow> qstate" where
  "add_waybackMin num meta crit st =
     (case (normalizeString (waybackMinSnapshots crit), waybackColumn meta) of
        (Some s, Some wc) \<Rightarrow>
          add (coalesce_int (quoteIdent wc) @ '' >= '' @ next_param st) [SNum (num s)] st
      | _ \<Rightarrow> st)"

definition add_safe_only :: "table_meta \<Rightarrow> bool \<Rightarrow> string option \<Rightarrow> qstate \<Rightarrow> qstate" where
  "add_safe_only meta flag col st =
     (case (flag, col) of
        (True, Some c) \<Rightarrow>
          (if is_boolean_column meta c then add (quoteIdent c @ '' IS NOT TRUE'') [] st
           else add (coalesce_int (quoteIdent c) @ '' <= 0'') [] st)
      | _ \<Rightarrow> st)"

subsection \<open>The compiled WHERE list\<close>

text \<open>All criteria, in the order of the handler, from empty \<open>where\<close> and \<open>values\<close>.\<close>

definition compile_where ::
  "(string \<Rightarrow> jsnum) \<Rightarrow> table_meta \<Rightarrow> roles \<Rightarrow> criteria \<Rightarrow> qstate" where
  "compile_where num meta r crit =
     fold (\<lambda>step st. step st)
       [add_domainStartsWith r crit,
        add_domainEndsWith r crit,
        add_tld r crit,
        add_lifecycle meta r crit,
        add_creationDateFrom r crit,
        add_creationDateTo r crit,
        add_ageYears num r crit,
        add_countryByIp meta crit,
        add_registrarContains meta crit,
        add_technologiesContains meta crit,
        add_responseStatusContains meta crit,
        add_detectedHostsMin num meta crit,
        add_detectedHostsMax num meta crit,
        add_expirationFrom r crit,
        add_expirationTo r crit,
        add_waybackMin num meta crit,
        add_safe_only meta (safeSpamhausOnly crit) (spamhausColumn meta),
        add_safe_only meta (safeViewsTotalOnly crit) (viewsTotalColumn meta)]
       \<lparr> where_frags = [], values_list = [] \<rparr>"

section \<open>The JSON body of a request\<close>

text \<open>
  What \<open>express.json()\<close> hands to a handler: a JSON value. \<open>JUndefined\<close> is the value of
  a member that is not there. \<open>JObj\<close> lists the members in the order of the text; a name
  that is written twice has the value written last.
\<close>

datatype jsval =
    JUndefined
  | JNull
  | JBool bool
  | JNum jsnum
  | JStr string
  | JArr "jsval list"
  | JObj "(string \<times> jsval) list"

text \<open>
  The two conversions between primitive values, \<open>Number(s)\<close> of a string and \<open>String(n)\<close>
  of a number. They are total and never throw; the handler is modelled for any such pair.
\<close>

record js_conv =
  num_of_string :: "string \<Rightarrow> jsnum"
  string_of_num :: "jsnum \<Rightarrow> string"

text \<open>
  \<open>v.name\<close> for the names the handlers read (none of them is a member of a prototype):
  the own member of an object, \<open>undefined\<close> on every other value.
\<close>

definition get_member :: "jsval \<Rightarrow> string \<Rightarrow> jsval" where
  "get_member v name =
     (case v of
        JObj kvs \<Rightarrow> (case map_of (rev kvs) name of Some x \<Rightarrow> x | None \<Rightarrow> JUndefined)
      | _ \<Rightarrow> JUndefined)"

definition has_own :: "(string \<times> jsval) list \<Rightarrow> string \<Rightarrow> bool" where
  "has_own kvs name = list_ex (\<lambda>kv. fst kv = name) kvs"

text \<open>The \<open>TypeError\<close> of a conversion to a primitive value that finds none.\<close>

definition cannot_convert :: js_error where
  "cannot_convert = JsError TypeErrorClass ''Cannot convert object to primitive value''"

text \<open>
  \<open>String(v)\<close>. An array is joined with commas, \<open>null\<close> and \<open>undefined\<close> elements giving
  the empty string. An object of a JSON text has no callable member of its own: with an
  own member \<open>toString\<close> the inherited method is hidden, \<open>valueOf\<close> gives no primitive
  either, and the conversion throws; without one the result is \<open>[object Object]\<close>.
\<close>

fun js_String :: "js_conv \<Rightarrow> jsval \<Rightarrow> js_error + string"
  and join_elems :: "js_conv \<Rightarrow> jsval list \<Rightarrow> js_error + string" where
  "js_String conv JUndefined = Inr ''undefined''"
| "js_String conv JNull = Inr ''null''"
| "js_String conv (JBool b) = Inr (if b then ''true'' else ''false'')"
| "js_String conv (JNum n) = Inr (string_of_num conv n)"
| "js_String conv (JStr s) = Inr s"
| "js_String conv (JArr xs) = join_elems conv xs"
| "js_String conv (JObj kvs) =
     (if has_own kvs ''toString'' then Inl cannot_convert else Inr ''[object Object]'')"
| "join_elems conv [] = Inr []"
| "join_elems conv (x # xs) =
     (case (if x = JUndefined \<or> x = JNull then Inr [] else js_String conv x) of
        Inl err \<Rightarrow> Inl err
      | Inr s \<Rightarrow>
          (if xs = [] then Inr s
           else (case join_elems conv xs of
                   Inl err \<Rightarrow> Inl err
                 | Inr rest \<Rightarrow> Inr (s @ '','' @ rest))))"

text \<open>
  \<open>Number(v)\<close>. An array or an object is converted to a primitive first, which for a JSON
  value is its string, or the \<open>TypeError\<close>.
\<close>

definition js_Number :: "js_conv \<Rightarrow> jsval \<Rightarrow> js_error + jsnum" where
  "js_Number conv v =
     (case v of
        JUndefined \<Rightarrow> Inr NaN
      | JNull \<Rightarrow> Inr (Fin 0)
      | JBool b \<Rightarrow> Inr (Fin (if b then 1 else 0))
      | JNum n \<Rightarrow> Inr n
      | JStr s \<Rightarrow> Inr (num_of_string conv s)
      | _ \<Rightarrow> (case js_String conv v of
                 Inl err \<Rightarrow> Inl err
               | Inr s \<Rightarrow> Inr (num_of_string conv s)))"

text \<open>
  The first two lines of \<open>normalizeString(v)\<close>: \<open>None\<close> for \<open>null\<close> and \<open>undefined\<close>,
  \<open>String(v)\<close> for every other value.
\<close>

definition to_text :: "js_conv \<Rightarrow> jsval \<Rightarrow> js_error + string option" where
  "to_text conv v =
     (if v = JUndefined \<or> v = JNull then Inr None
      else (case js_String conv v of Inl err \<Rightarrow> Inl err | Inr s \<Rightarrow> Inr (Some s)))"

text \<open>One statement after another, the first throw ending the sequence.\<close>

definition bind_err :: "'e + 'a \<Rightarrow> ('a \<Rightarrow> 'e + 'b) \<Rightarrow> 'e + 'b" where
  "bind_err m f = (case m of Inl err \<Rightarrow> Inl err | Inr x \<Rightarrow> f x)"

text \<open>
  The conversions that the handler applies to the members of \<open>criteria\<close>, in its order.
  Each is done whether or not the column of the criterion exists, since every
  \<open>normalizeString\<close> comes before the test of its column. Two are conditional:
  \<open>expiredState\<close> is read only when \<open>lifecycleState\<close> is \<open>null\<close> or \<open>undefined\<close>, and
  \<open>Number(criteria.expiringWithinDays)\<close> only inside \<open>if (lifecycle)\<close>. No conversion has
  an effect other than its possible throw, and nothing else happens before the queries,
  so the model converts first and compiles the converted criteria afterwards.
\<close>

definition read_criteria :: "js_conv \<Rightarrow> jsval \<Rightarrow> js_error + criteria" where
  "read_criteria conv c =
     bind_err (to_text conv (get_member c ''domainStartsWith'')) (\<lambda>starts.
     bind_err (to_text conv (get_member c ''domainEndsWith'')) (\<lambda>ends.
     bind_err (to_text conv (get_member c ''tld'')) (\<lambda>tlds.
     bind_err (to_text conv (get_member c ''lifecycleState'')) (\<lambda>life.
     bind_err (if life = None then to_text conv (get_member c ''expiredState'') else Inr None) (\<lambda>expired.
     bind_err (if normalizeString (case life of Some v \<Rightarrow> Some v | None \<Rightarrow> expired) \<noteq> None
               then js_Number conv (get_member c ''expiringWithinDays'') else Inr NaN) (\<lambda>days.
     bind_err (to_text conv (get_member c ''creationDateFrom'')) (\<lambda>createdFrom.
     bind_err (to_text conv (get_member c ''creationDateTo'')) (\<lambda>createdTo.
     bind_err (to_text conv (get_member c ''ageYearsFrom'')) (\<lambda>ageFrom.
     bind_err (to_text conv (get_member c ''ageYearsTo'')) (\<lambda>ageTo.
     bind_err (to_text conv (get_member c ''countryByIp'')) (\<lambda>country.
     bind_err (to_text conv (get_member c ''registrarContains'')) (\<lambda>registrar.
     bind_err (to_text conv (get_member c ''technologiesContains'')) (\<lambda>technologies.
     bind_err (to_text conv (get_member c ''responseStatusContains'')) (\<lambda>responseStatus.
     bind_err (to_text conv (get_member c ''detectedHostsMin'')) (\<lambda>hostsMin.
     bind_err (to_text conv (get_member c ''detectedHostsMax'')) (\<lambda>hostsMax.
     bind_err (to_text conv (get_member c ''expirationFrom'')) (\<lambda>expiresFrom.
     bind_err (to_text conv (get_member c ''expirationTo'')) (\<lambda>expiresTo.
     bind_err (to_text conv (get_member c ''waybackMinSnapshots'')) (\<lambda>waybackMin.
       Inr \<lparr> domainStartsWith = starts, domainEndsWith = ends, tld = tlds,
             lifecycleState = life, expiredState = expired, expiringWithinDays = days,
             creationDateFrom = createdFrom, creationDateTo = createdTo,
             ageYearsFrom = ageFrom, ageYearsTo = ageTo, countryByIp = country,
             registrarContains = registrar, technologiesContains = technologies,
             responseStatusContains = responseStatus, detectedHostsMin = hostsMin,
             detectedHostsMax = hostsMax, expirationFrom = expiresFrom,
             expirationTo = expiresTo, waybackMinSnapshots = waybackMin,
             safeSpamhausOnly = (get_member c ''safeSpamhausOnly'' = JBool True),
             safeViewsTotalOnly = (get_member c ''safeViewsTotalOnly'' = JBool True) \<rparr>
     )))))))))))))))))))"

section \<open>The search handler: pagination and execution\<close>

text \<open>
  The converted request body: \<open>body_pageSize\<close> and \<open>body_page\<close> hold
  \<open>Number(body.pageSize)\<close> and \<open>Number(body.page)\<close>, \<open>body_criteria\<close> the converted
  members of \<open>body.criteria || {}\<close>.
\<close>

record search_body =
  body_pageSize :: jsnum
  body_page :: jsnum
  body_criteria :: criteria

definition pageSize_of :: "search_body \<Rightarrow> int" where
  "pageSize_of body = clampInt (body_pageSize body) 1 500 50"

definition page_of :: "search_body \<Rightarrow> int" where
  "page_of body = clampInt (body_page body) 1 1000000000 1"

definition offset_of :: "search_body \<Rightarrow> int" where
  "offset_of body = (page_of body - 1) * pageSize_of body"

text \<open>\<open>Math.max(1, Math.ceil(total / pageSize))\<close>\<close>

definition totalPages_of :: "nat \<Rightarrow> int \<Rightarrow> int" where
  "totalPages_of n ps = max 1 \<lceil>rat_of_nat n / rat_of_int ps\<rceil>"

text \<open>
  The database collaborator: \<open>pool.query(sql, values)\<close> for the count, which answers the
  number of rows (or throws an error with a message), and for the page of rows.
\<close>

record 'row db =
  count_query :: "string \<Rightarrow> sqlval list \<Rightarrow> string + nat"
  list_query :: "string \<Rightarrow> sqlval list \<Rightarrow> string + 'row list"

record 'row search_page =
  page :: int
  pageSize :: int
  total :: nat
  totalPages :: int
  items :: "'row list"

definition nl :: string where
  "nl = [CHR 0x0A]"

definition whereSql :: "qstate \<Rightarrow> string" where
  "whereSql st =
     (if where_frags st \<noteq> [] then ''WHERE '' @ join_str '' AND '' (where_frags st) else [])"

definition countSql :: "table_meta \<Rightarrow> qstate \<Rightarrow> string" where
  "countSql meta st =
     ''SELECT COUNT(*)::bigint AS total FROM '' @ tableSql meta @ '' '' @ whereSql st @ '';''"

definition opt_col :: "string option \<Rightarrow> string \<Rightarrow> string list" where
  "opt_col col alias = (case col of Some c \<Rightarrow> [quoteIdent c @ alias] | None \<Rightarrow> [])"

definition known_fields :: "string list" where
  "known_fields =
     [''tld_suffix'', ''technologies'', ''country_by_ip'', ''pr_value'', ''harmonic_value'',
      ''detected_hosts'', ''rdap_whois_last_data_checked'', ''rdap_whois_method'',
      ''domain_last_changed'', ''registrar'', ''response_status'']"

definition selectCols :: "table_meta \<Rightarrow> roles \<Rightarrow> string list" where
  "selectCols meta r =
     [quoteIdent (domainColumn r) @ '' AS domain''] @
     opt_col (tldColumn r) '' AS tld'' @
     opt_col (createdColumn r) '' AS domain_creation_date'' @
     opt_col (expiresColumn r) '' AS domain_expiration_date'' @
     opt_col (scheduledDeleteColumn r) '' AS scheduled_delete_date'' @
     opt_col (statusColumn r) '' AS status'' @
     opt_col (deletedFlagColumn r) '' AS is_deleted'' @
     opt_col (deletedAtColumn r) '' AS deleted_at'' @
     map quoteIdent (filter (has meta) known_fields) @
     opt_col (waybackColumn meta) '' AS wayback'' @
     opt_col (spamhausColumn meta) '' AS spamhaus'' @
     opt_col (viewsTotalColumn meta) '' AS viewstotal''"

definition listSql :: "table_meta \<Rightarrow> roles \<Rightarrow> qstate \<Rightarrow> string" where
  "listSql meta r st =
     nl @ ''      SELECT'' @ nl @
     ''        '' @ join_str ('','' @ nl @ ''        '') (selectCols meta r) @ nl @
     ''      FROM '' @ tableSql meta @ nl @
     ''      '' @ whereSql st @ nl @
     ''      ORDER BY '' @ quoteIdent (domainColumn r) @ '' ASC'' @ nl @
     ''      LIMIT $'' @ show_nat (length (values_list st) + 1) @ nl @
     ''      OFFSET $'' @ show_nat (length (values_list st) + 2) @ '';'' @ nl @
     ''    ''"

text \<open>\<open>err.message || 'Search failed'\<close>\<close>

definition error_message :: "string \<Rightarrow> string \<Rightarrow> string" where
  "error_message msg dflt = (if msg \<noteq> [] then msg else dflt)"

text \<open>
  The conversions of the handler, in its order: \<open>clampInt(body.pageSize, ...)\<close> and
  \<open>clampInt(body.page, ...)\<close> call \<open>Number\<close> first, then come those of the criteria.
\<close>

definition read_body :: "js_conv \<Rightarrow> jsval \<Rightarrow> js_error + search_body" where
  "read_body conv body =
     bind_err (js_Number conv (get_member body ''pageSize'')) (\<lambda>ps.
     bind_err (js_Number conv (get_member body ''page'')) (\<lambda>pg.
     bind_err (read_criteria conv (get_member body ''criteria'')) (\<lambda>crit.
       Inr \<lparr> body_pageSize = ps, body_page = pg, body_criteria = crit \<rparr>)))"

definition domain_column_of :: "table_meta \<Rightarrow> string option" where
  "domain_column_of meta = pick meta [''domain'', ''hostname'', ''host'', ''name''] (Some [''domain''])"

text \<open>
  The handler of \<open>POST /api/domains/search\<close> on the JSON body of the request. It answers
  \<open>Inl (status, error)\<close> or the page. Everything after the test of the domain column runs
  inside \<open>try\<close>: a throwing conversion and a failing query both end in the answer 500 with
  \<open>err.message || 'Search failed'\<close>.
\<close>

definition search ::
  "js_conv \<Rightarrow> 'row db \<Rightarrow> table_meta \<Rightarrow> jsval \<Rightarrow> (nat \<times> string) + 'row search_page" where
  "search conv d meta raw =
     (case domain_column_of meta of
        None \<Rightarrow>
          Inl (500, ''No domain column found in table '' @ schema (tableRef meta) @ ''.'' @
                    table (tableRef meta))
      | Some dc \<Rightarrow>
          (case read_body conv raw of
             Inl err \<Rightarrow> Inl (500, error_message (message_of err) ''Search failed'')
           | Inr body \<Rightarrow>
               (let r = resolve_roles meta dc;
                    ps = pageSize_of body;
                    pg = page_of body;
                    off = offset_of body;
                    st = compile_where (num_of_string conv) meta r (body_criteria body)
                in case count_query d (countSql meta st) (values_list st) of
                     Inl msg \<Rightarrow> Inl (500, error_message msg ''Search failed'')
                   | Inr n \<Rightarrow>
                       (case list_query d (listSql meta r st) (values_list st @ [SInt ps, SInt off]) of
                          Inl msg \<Rightarrow> Inl (500, error_message msg ''Search failed'')
                        | Inr rows \<Rightarrow>
                            Inr \<lparr> page = pg, pageSize = ps, total = n,
                                  totalPages = totalPages_of n ps, items = rows \<rparr>))))"

section \<open>Live checks: retrying fetch\<close>

text \<open>
  What one call of \<open>withTimeout(fetch(url, options), timeoutMs)\<close> does: it rejects (a
  transport failure, or the timeout), or it answers with a status; then the body text is
  what \<open>res.text().catch(() => '')\<close> reads, and the third component is the value of
  \<open>JSON.parse(text)\<close>, \<open>None\<close> when parsing throws or gives \<open>null\<close>.
\<close>

datatype 'j outcome = Rejected js_error | Responded nat string "'j option"

text \<open>The value \<open>{ res, text, json }\<close> that \<open>fetchJsonWithRetry\<close> returns.\<close>

record 'j fetched =
  res_status :: nat
  text_of :: string
  json_of :: "'j option"

definition res_ok :: "'j fetched \<Rightarrow> bool" where
  "res_ok f = (200 \<le> res_status f \<and> res_status f \<le> 299)"

datatype endpoint = LoginCall | LookupCall | AvailabilityCall | CdxCall

text \<open>What a caller can observe of the network and of the timers.\<close>

datatype event = Fetch endpoint | Sleep nat

text \<open>
  \<open>fetchJsonWithRetry(url, options, { retries })\<close>. \<open>net attempt\<close> is the outcome of the
  fetch of that attempt. The loop variable and \<open>lastErr\<close> are arguments; the result comes
  with the events in their order. On the last attempt a 5xx or 429 answer is returned, not
  thrown, and its body has been read for \<open>lastErr\<close> already, so the second read gives \<open>''\<close>.
\<close>

function fetch_loop ::
  "endpoint \<Rightarrow> nat \<Rightarrow> (nat \<Rightarrow> 'j outcome) \<Rightarrow> nat \<Rightarrow> js_error option \<Rightarrow>
   (js_error + 'j fetched) \<times> event list" where
  "fetch_loop ep retries net attempt lastErr =
     (if attempt \<le> retries then
        (case net attempt of
           Responded st txt js \<Rightarrow>
             (if st \<ge> 500 \<or> st = 429 then
                (if attempt < retries then
                   (let (r, evs) = fetch_loop ep retries net (attempt + 1)
                                     (Some (JsError ErrorClass (take 500 (''HTTP '' @ show_nat st @ '' '' @ txt))))
                    in (r, Fetch ep # Sleep (250 * 2 ^ attempt) # evs))
                 else (Inr \<lparr> res_status = st, text_of = [], json_of = None \<rparr>, [Fetch ep]))
              else (Inr \<lparr> res_status = st, text_of = txt,
                          json_of = (if txt \<noteq> [] then js else None) \<rparr>, [Fetch ep]))
         | Rejected err \<Rightarrow>
             (if attempt < retries then
                (let (r, evs) = fetch_loop ep retries net (attempt + 1) (Some err)
                 in (r, Fetch ep # Sleep (250 * 2 ^ attempt) # evs))
              else
                (let (r, evs) = fetch_loop ep retries net (attempt + 1) (Some err)
                 in (r, Fetch ep # evs))))
      else
        (case lastErr of
           Some err \<Rightarrow> (Inl err, [])
         | None \<Rightarrow> (Inl (JsError ErrorClass ''fetch_failed''), [])))"
  by pat_completeness auto
termination
  by (relation "measure (\<lambda>(ep, retries, net, attempt, lastErr). Suc retries - attempt)") auto

declare fetch_loop.simps [simp del]

definition fetchJsonWithRetry ::
  "endpoint \<Rightarrow> nat \<Rightarrow> (nat \<Rightarrow> 'j outcome) \<Rightarrow> (js_error + 'j fetched) \<times> event list" where
  "fetchJsonWithRetry ep retries net = fetch_loop ep retries net 0 None"

text \<open>
  The retry policy in the words of the specification: an outcome asks for a retry when it
  is a transport failure, a status of 500 or more, or status 429; an attempt is followed by
  a sleep of \<open>250 * 2 ^ attempt\<close> milliseconds and another attempt as long as its outcome
  asks for one and retries remain.
\<close>

fun retryable :: "'j outcome \<Rightarrow> bool" where
  "retryable (Rejected err) = True"
| "retryable (Responded st txt js) = (st \<ge> 500 \<or> st = 429)"

fun spec_trace :: "endpoint \<Rightarrow> nat \<Rightarrow> nat \<Rightarrow> (nat \<Rightarrow> 'j outcome) \<Rightarrow> event list" where
  "spec_trace ep 0 attempt net = [Fetch ep]"
| "spec_trace ep (Suc left) attempt net =
     Fetch ep #
     (if retryable (net attempt) then Sleep (250 * 2 ^ attempt) # spec_trace ep left (Suc attempt) net
      else [])"

section \<open>Live checks: credentials and the Spamhaus lookup\<close>

text \<open>
  The environment variables the credential manager reads (\<open>None\<close> when unset), and the
  process-wide \<open>spamhausIntelAuth\<close>.
\<close>

record env =
  SPAMHAUS_INTEL_API_KEY :: "string option"
  SPAMHAUS_API_KEY :: "string option"
  SPAMHAUS_INTEL_TOKEN :: "string option"
  SPAMHAUS_INTEL_USERNAME :: "string option"
  SPAMHAUS_INTEL_PASSWORD :: "string option"

record auth =
  token :: string
  expiresAtMs :: jsnum

text \<open>
  The body of the login answer: \<open>login_token\<close> is \<open>json?.token\<close> (\<open>None\<close> when absent) and
  \<open>login_expires\<close> is \<open>Number(json?.expires || 0)\<close>.
\<close>

record login_json =
  login_token :: "string option"
  login_expires :: jsnum

datatype token_source = Api_key | Missing | Login_cached | Login

text \<open>\<open>Date.now() < expiresAtMs - 60_000\<close> on a JavaScript number.\<close>

fun before_margin :: "int \<Rightarrow> jsnum \<Rightarrow> bool" where
  "before_margin now (Fin q) = (rat_of_int now < q - 60000)"
| "before_margin now PosInf = True"
| "before_margin now _ = False"

text \<open>\<open>expiresUnix * 1000\<close>\<close>

fun times_1000 :: "jsnum \<Rightarrow> jsnum" where
  "times_1000 (Fin q) = Fin (q * 1000)"
| "times_1000 n = n"

definition direct_key :: "env \<Rightarrow> string option" where
  "direct_key e =
     or_else (or_else (or_else (SPAMHAUS_INTEL_API_KEY e) (SPAMHAUS_API_KEY e)) (SPAMHAUS_INTEL_TOKEN e))
       None"

text \<open>The login call and what follows it in \<open>getSpamhausIntelToken\<close>.\<close>

definition login_call ::
  "(nat \<Rightarrow> login_json outcome) \<Rightarrow> int \<Rightarrow> auth option \<Rightarrow>
   (js_error + string option \<times> token_source) \<times> auth option \<times> event list" where
  "login_call net now2 cur =
     (case fetchJsonWithRetry LoginCall 1 net of
        (Inl err, evs) \<Rightarrow> (Inl err, cur, evs)
      | (Inr f, evs) \<Rightarrow>
          if \<not> res_ok f then
            (Inl (JsError ErrorClass
                    (''Spamhaus login failed: HTTP '' @ show_nat (res_status f) @ '' '' @
                     take 200 (text_of f))), cur, evs)
          else
            (let tok = or_else (case json_of f of Some j \<Rightarrow> login_token j | None \<Rightarrow> None) None;
                 expiresUnix = (case json_of f of Some j \<Rightarrow> login_expires j | None \<Rightarrow> Fin 0)
             in case tok of
                  None \<Rightarrow> (Inl (JsError ErrorClass ''Spamhaus login failed: no token in response''), cur, evs)
                | Some t \<Rightarrow>
                    (Inr (Some t, Login),
                     Some \<lparr> token = t,
                            expiresAtMs = (if truthy_num expiresUnix then times_1000 expiresUnix
                                           else Fin (rat_of_int (now2 + 23 * 60 * 60 * 1000))) \<rparr>,
                     evs)))"

text \<open>
  \<open>getSpamhausIntelToken()\<close>. \<open>now1\<close> is the clock at the test of the cached token, \<open>net\<close>
  the network at the login call and \<open>now2\<close> the clock when the new token is stored. The
  result is the thrown error or \<open>{ token, source }\<close>, with the new \<open>spamhausIntelAuth\<close>
  and the events.
\<close>

definition getSpamhausIntelToken ::
  "env \<Rightarrow> int \<Rightarrow> (nat \<Rightarrow> login_json outcome) \<Rightarrow> int \<Rightarrow> auth option \<Rightarrow>
   (js_error + string option \<times> token_source) \<times> auth option \<times> event list" where
  "getSpamhausIntelToken e now1 net now2 cur =
     (case direct_key e of
        Some direct \<Rightarrow> (Inr (Some direct, Api_key), cur, [])
      | None \<Rightarrow>
          (case (or_else (SPAMHAUS_INTEL_USERNAME e) None, or_else (SPAMHAUS_INTEL_PASSWORD e) None) of
             (Some username, Some password) \<Rightarrow>
               (case cur of
                  Some a \<Rightarrow>
                    if token a \<noteq> [] \<and> truthy_num (expiresAtMs a) \<and> before_margin now1 (expiresAtMs a)
                    then (Inr (Some (token a), Login_cached), cur, [])
                    else login_call net now2 cur
                | None \<Rightarrow> login_call net now2 cur)
           | _ \<Rightarrow> (Inr (None, Missing), cur, [])))"

text \<open>
  The result object of \<open>checkSpamhaus\<close>; \<open>source\<close> is always \<open>'spamhaus_intel'\<close>.
  \<open>SpamUnsupported\<close> is \<open>{ supported: false, error }\<close>, the others have \<open>supported: true\<close>:
  \<open>{ listed: false }\<close>, \<open>{ listed: true, raw }\<close> and \<open>{ error }\<close>.
\<close>

datatype spamhaus_result =
    SpamUnsupported string
  | SpamNotListed
  | SpamListed string
  | SpamError string

fun spamhaus_error :: "spamhaus_result \<Rightarrow> string option" where
  "spamhaus_error (SpamUnsupported e) = Some e"
| "spamhaus_error (SpamError e) = Some e"
| "spamhaus_error _ = None"

text \<open>
  \<open>checkSpamhaus(domain)\<close>. An error thrown by \<open>getSpamhausIntelToken\<close> is not caught here.
  The parsed body of the lookup is kept as a text; \<open>raw\<close> is \<open>json ?? text\<close>.
\<close>

definition checkSpamhaus ::
  "env \<Rightarrow> int \<Rightarrow> (nat \<Rightarrow> login_json outcome) \<Rightarrow> int \<Rightarrow> (nat \<Rightarrow> string outcome) \<Rightarrow>
   auth option \<Rightarrow> (js_error + spamhaus_result) \<times> auth option \<times> event list" where
  "checkSpamhaus e now1 login_net now2 lookup_net cur =
     (case getSpamhausIntelToken e now1 login_net now2 cur of
        (Inl err, cur1, evs) \<Rightarrow> (Inl err, cur1, evs)
      | (Inr (tok, source), cur1, evs) \<Rightarrow>
          (case or_else tok None of
             None \<Rightarrow>
               (Inr (SpamUnsupported
                       (if source = Missing
                        then ''Missing Spamhaus Intel credentials (set SPAMHAUS_INTEL_API_KEY or SPAMHAUS_INTEL_USERNAME/PASSWORD)''
                        else ''Missing Spamhaus Intel token'')), cur1, evs)
           | Some t \<Rightarrow>
               (case fetchJsonWithRetry LookupCall 1 lookup_net of
                  (Inr f, evs2) \<Rightarrow>
                    if res_status f = 404 then (Inr SpamNotListed, cur1, evs @ evs2)
                    else if res_status f = 200 then
                      (Inr (SpamListed (case json_of f of Some j \<Rightarrow> j | None \<Rightarrow> text_of f)), cur1, evs @ evs2)
                    else if res_status f = 401 \<or> res_status f = 403 then
                      (Inr (SpamError (''Auth failed (HTTP '' @ show_nat (res_status f) @ '')'')), None, evs @ evs2)
                    else
                      (Inr (SpamError (''HTTP '' @ show_nat (res_status f) @ '' '' @ take 300 (text_of f))),
                       cur1, evs @ evs2)
                | (Inl err, evs2) \<Rightarrow> (Inr (SpamError (error_text err)), cur1, evs @ evs2))))"

section \<open>Live checks: the Wayback lookup\<close>

text \<open>
  The member \<open>closest.timestamp\<close> of the availability answer: falsy (absent, \<open>null\<close> or
  \<open>''\<close>), a non-empty string, or a truthy value that has no \<open>slice\<close> method (a number, a
  boolean, an object), on which \<open>closest.timestamp.slice(0, 4)\<close> throws a \<open>TypeError\<close>.
\<close>

datatype ts_member = TsFalsy | TsString string | TsNoSlice

text \<open>\<open>closest\<close>: the truthiness of \<open>closest.available\<close> and the timestamp member.\<close>

record closest =
  available :: bool
  timestamp :: ts_member

text \<open>The body of the availability answer is \<open>json?.archived_snapshots?.closest\<close>, when present.\<close>

type_synonym avail_json = "closest option"

text \<open>The body of the CDX answer: an array of rows, or any other JSON value.\<close>

datatype cdx_json = CdxArray "string list list" | CdxOther

datatype snapshots = SnapCount nat | SnapText string

text \<open>
  The result object of \<open>checkWayback\<close>: \<open>{ supported: true, hasSnapshots, snapshots,
  lastSnapshot, link }\<close> or \<open>{ supported: true, error, link }\<close>.
\<close>

datatype wayback_result =
    WaybackOk bool "snapshots option" "string option" string
  | WaybackError string string

fun wayback_error :: "wayback_result \<Rightarrow> string option" where
  "wayback_error (WaybackError e link) = Some e"
| "wayback_error _ = None"

text \<open>\<open>fetchJsonWithRetry(...).catch(() => null)\<close>\<close>

definition catch_null :: "(js_error + 'j fetched) \<Rightarrow> 'j fetched option" where
  "catch_null r = (case r of Inl err \<Rightarrow> None | Inr f \<Rightarrow> Some f)"

text \<open>The count read from the CDX answer, whose first row is the header.\<close>

definition cdx_snapshots :: "cdx_json fetched option \<Rightarrow> snapshots option" where
  "cdx_snapshots cdxResult =
     (case cdxResult of
        None \<Rightarrow> None
      | Some f \<Rightarrow>
          (case json_of f of
             Some (CdxArray rows) \<Rightarrow>
               if res_ok f \<and> length rows > 0 then
                 (let n = length rows - 1 in
                  if n \<ge> 9999 then Some (SnapText ''10000+'') else Some (SnapCount n))
               else None
           | _ \<Rightarrow> None))"

definition closest_of :: "avail_json fetched option \<Rightarrow> closest option" where
  "closest_of availResult =
     (case availResult of
        None \<Rightarrow> None
      | Some f \<Rightarrow> if res_ok f then (case json_of f of Some c \<Rightarrow> c | None \<Rightarrow> None) else None)"

text \<open>
  \<open>checkWayback(domain)\<close>. The domain is a normalized one, which \<open>encodeURIComponent\<close>
  leaves as it is. The two calls run concurrently; the events of the availability call
  are listed first.
\<close>

definition checkWayback ::
  "(nat \<Rightarrow> avail_json outcome) \<Rightarrow> (nat \<Rightarrow> cdx_json outcome) \<Rightarrow> string \<Rightarrow>
   wayback_result \<times> event list" where
  "checkWayback avail_net cdx_net domain =
     (let link = ''https://web.archive.org/web/*/'' @ domain;
          (availR, evs1) = fetchJsonWithRetry AvailabilityCall 1 avail_net;
          (cdxR, evs2) = fetchJsonWithRetry CdxCall 0 cdx_net;
          cl = closest_of (catch_null availR);
          hasSnapshots = (case cl of Some c \<Rightarrow> available c | None \<Rightarrow> False);
          stamp = (case cl of Some c \<Rightarrow> timestamp c | None \<Rightarrow> TsFalsy)
      in case stamp of
           TsNoSlice \<Rightarrow>
             (WaybackError (error_text (JsError TypeErrorClass ''closest.timestamp.slice is not a function''))
                link, evs1 @ evs2)
         | TsFalsy \<Rightarrow>
             (WaybackOk hasSnapshots (cdx_snapshots (catch_null cdxR)) None link, evs1 @ evs2)
         | TsString t \<Rightarrow>
             (WaybackOk hasSnapshots (cdx_snapshots (catch_null cdxR))
                (if t \<noteq> [] then Some (take 4 t @ ''-'' @ take 2 (drop 4 t) @ ''-'' @ take 2 (drop 6 t))
                 else None) link,
              evs1 @ evs2))"

section \<open>Live checks: the handler and its cache\<close>

definition strip_protocol :: "string \<Rightarrow> string" where
  "strip_protocol s =
     (if starts_with (toLowerCase s) ''http://'' then drop 7 s
      else if starts_with (toLowerCase s) ''https://'' then drop 8 s
      else s)"

definition is_domain_char :: "char \<Rightarrow> bool" where
  "is_domain_char c =
     (let n = code_of c in
      (97 \<le> n \<and> n \<le> 122) \<or> (48 \<le> n \<and> n \<le> 57) \<or> c = CHR ''.'' \<or> c = CHR ''-'')"

definition trim_dots :: "string \<Rightarrow> string" where
  "trim_dots s = rev (dropWhile (\<lambda>c. c = CHR ''.'') (rev (dropWhile (\<lambda>c. c = CHR ''.'') s)))"

definition normalizeDomain :: "string option \<Rightarrow> string option" where
  "normalizeDomain input =
     (case normalizeString input of
        None \<Rightarrow> None
      | Some s \<Rightarrow>
          (let x0 = strip_protocol (trim s);
               x1 = takeWhile (\<lambda>c. c \<noteq> CHR ''/'') x0;
               x2 = takeWhile (\<lambda>c. c \<noteq> CHR ''?'') x1;
               x3 = takeWhile (\<lambda>c. c \<noteq> CHR ''#'') x2;
               x4 = takeWhile (\<lambda>c. c \<noteq> CHR '':'') x3;
               x = toLowerCase (trim_dots x4)
           in if x = [] \<or> \<not> list_all is_domain_char x then None
              else if CHR ''.'' \<notin> set x then None
              else Some x))"

record check_value =
  spamhaus :: spamhaus_result
  wayback :: wayback_result

record cache_entry =
  ts :: int
  cached_value :: check_value

text \<open>The process-wide state of the live checks: \<open>checkCache\<close> and \<open>spamhausIntelAuth\<close>.\<close>

record server_state =
  checkCache :: "string \<rightharpoonup> cache_entry"
  spamhausIntelAuth :: "auth option"

definition CHECK_TTL_MS :: int where
  "CHECK_TTL_MS = 15 * 60 * 1000"

text \<open>
  What the surroundings give to one request of \<open>POST /api/domains/check\<close>: the clock
  readings in the order of their use, and the network of each of the four calls.
\<close>

record world =
  now_lookup :: int
  now_token :: int
  login_net :: "nat \<Rightarrow> login_json outcome"
  now_login :: int
  lookup_net :: "nat \<Rightarrow> string outcome"
  avail_net :: "nat \<Rightarrow> avail_json outcome"
  cdx_net :: "nat \<Rightarrow> cdx_json outcome"
  now_store :: int

datatype check_response =
    CheckInvalid
  | CheckResult string bool check_value
  | CheckFailed string

text \<open>A string member is truthy when it is present and not empty.\<close>

definition truthy_str :: "string option \<Rightarrow> bool" where
  "truthy_str v = (case v of Some s \<Rightarrow> s \<noteq> [] | None \<Rightarrow> False)"

definition hasError :: "check_value \<Rightarrow> bool" where
  "hasError v = (truthy_str (spamhaus_error (spamhaus v)) \<or> truthy_str (wayback_error (wayback v)))"

text \<open>
  The handler of \<open>POST /api/domains/check\<close>: \<open>CheckInvalid\<close> is the answer 400,
  \<open>CheckResult domain cached value\<close> the answer \<open>{ domain, cached, ...value }\<close> and
  \<open>CheckFailed\<close> the answer 500. The events of the Spamhaus branch are listed before those
  of the Wayback branch.
\<close>

definition check ::
  "env \<Rightarrow> world \<Rightarrow> string option \<Rightarrow> server_state \<Rightarrow> check_response \<times> server_state \<times> event list" where
  "check e w input s =
     (case normalizeDomain input of
        None \<Rightarrow> (CheckInvalid, s, [])
      | Some domain \<Rightarrow>
          (case (case checkCache s domain of
                   Some c \<Rightarrow> if now_lookup w - ts c < CHECK_TTL_MS then Some c else None
                 | None \<Rightarrow> None) of
             Some c \<Rightarrow> (CheckResult domain True (cached_value c), s, [])
           | None \<Rightarrow>
               (let (sp, auth1, evs1) =
                      checkSpamhaus e (now_token w) (login_net w) (now_login w) (lookup_net w)
                        (spamhausIntelAuth s);
                    (wb, evs2) = checkWayback (avail_net w) (cdx_net w) domain;
                    s1 = s\<lparr> spamhausIntelAuth := auth1 \<rparr>
                in case sp of
                     Inl err \<Rightarrow> (CheckFailed (error_message (message_of err) ''Check failed''), s1, evs1 @ evs2)
                   | Inr spam \<Rightarrow>
                       (let v = \<lparr> spamhaus = spam, wayback = wb \<rparr>;
                            s2 = (if \<not> hasError v
                                  then s1\<lparr> checkCache := (checkCache s1)(domain \<mapsto> \<lparr> ts = now_store w, cached_value = v \<rparr>) \<rparr>
                                  else s1)
                        in (CheckResult domain False v, s2, evs1 @ evs2)))))"

section \<open>Reading the compiled WHERE list\<close>

text \<open>
  The fragments are joined by \<open>AND\<close>, and SQL keeps a row only when the whole condition
  is true. A truth assignment gives each fragment its value on a row: \<open>Some True\<close>,
  \<open>Some False\<close> or \<open>None\<close> for SQL's unknown. \<open>NOT\<close> exchanges true and false and leaves
  unknown as it is.
\<close>

definition sql_not :: "bool option \<Rightarrow> bool option" where
  "sql_not v = map_option Not v"

definition row_passes :: "(string \<Rightarrow> bool option) \<Rightarrow> string list \<Rightarrow> bool" where
  "row_passes tv frags = list_all (\<lambda>f. tv f = Some True) frags"

text \<open>A later state of the two arrays: both have only grown at the end.\<close>

definition extends :: "qstate \<Rightarrow> qstate \<Rightarrow> bool" where
  "extends st st' =
     (\<exists>ws vs. where_frags st' = where_frags st @ ws \<and> values_list st' = values_list st @ vs)"

text \<open>
  The states of the live checks that the server can be in: it starts with an empty cache
  and no token, and only the handler of \<open>POST /api/domains/check\<close> changes them.
\<close>

inductive reachable :: "env \<Rightarrow> server_state \<Rightarrow> bool" for e :: env where
  start: "reachable e \<lparr> checkCache = Map.empty, spamhausIntelAuth = None \<rparr>"
| request: "reachable e s \<Longrightarrow> check e w input s = (resp, s', evs) \<Longrightarrow> reachable e s'"

section \<open>Inputs used in the examples\<close>

text \<open>The criteria object \<open>{}\<close>: every member absent.\<close>

definition absent_criteria :: criteria where
  "absent_criteria =
     \<lparr> domainStartsWith = None, domainEndsWith = None, tld = None, lifecycleState = None,
       expiredState = None, expiringWithinDays = NaN, creationDateFrom = None,
       creationDateTo = None, ageYearsFrom = None, ageYearsTo = None, countryByIp = None,
       registrarContains = None, technologiesContains = None, responseStatusContains = None,
       detectedHostsMin = None, detectedHostsMax = None, expirationFrom = None,
       expirationTo = None, waybackMinSnapshots = None, safeSpamhausOnly = False,
       safeViewsTotalOnly = False \<rparr>"

text \<open>The metadata of \<open>public.expired_domains\<close> with text columns of the given names.\<close>

definition text_table :: "string list \<Rightarrow> table_meta" where
  "text_table names =
     loadMeta \<lparr> schema = ''public'', table = ''expired_domains'' \<rparr>
       (map (\<lambda>n. \<lparr> column_name = n, data_type = ''text'', udt_name = ''text'' \<rparr>) names)"

text \<open>A database that answers every count with \<open>n\<close> and every page with \<open>rows\<close>.\<close>

definition answering_db :: "nat \<Rightarrow> 'row list \<Rightarrow> 'row db" where
  "answering_db n rows = \<lparr> count_query = (\<lambda>sql vs. Inr n), list_query = (\<lambda>sql vs. Inr rows) \<rparr>"

text \<open>A conversion \<open>Number(s)\<close> that knows no number; the examples convert no string.\<close>

definition no_number :: "string \<Rightarrow> jsnum" where
  "no_number s = NaN"

text \<open>The truth assignment under which every fragment is unknown.\<close>

definition all_unknown :: "string \<Rightarrow> bool option" where
  "all_unknown f = None"

text \<open>A conversion \<open>Number(s)\<close> for the examples: it reads a string of decimal digits.\<close>

definition is_digit :: "char \<Rightarrow> bool" where
  "is_digit c = (48 \<le> code_of c \<and> code_of c \<le> 57)"

definition digits_number :: "string \<Rightarrow> jsnum" where
  "digits_number s =
     (if s \<noteq> [] \<and> list_all is_digit s
      then Fin (of_nat (foldl (\<lambda>a c. 10 * a + (code_of c - 48)) 0 s))
      else NaN)"


text \<open>Networks for the examples: every attempt gets the same answer.\<close>

definition always_503 :: "nat \<Rightarrow> 'j outcome" where
  "always_503 attempt = Responded 503 ''Service Unavailable'' None"

definition always_status :: "nat \<Rightarrow> nat \<Rightarrow> 'j outcome" where
  "always_status st attempt = Responded st [] None"

definition login_answer :: "string \<Rightarrow> jsnum \<Rightarrow> nat \<Rightarrow> login_json outcome" where
  "login_answer t expires attempt =
     Responded 200 ''{...}'' (Some \<lparr> login_token = Some t, login_expires = expires \<rparr>)"

definition cdx_answer :: "nat \<Rightarrow> nat \<Rightarrow> cdx_json outcome" where
  "cdx_answer n attempt =
     Responded 200 ''[...]'' (Some (CdxArray ([''timestamp''] # replicate n [''20200101000000''])))"

definition avail_answer :: "string \<Rightarrow> nat \<Rightarrow> avail_json outcome" where
  "avail_answer stamp attempt =
     Responded 200 ''{...}'' (Some (Some \<lparr> available = True, timestamp = TsString stamp \<rparr>))"

text \<open>Environments for the examples: a static API key, or a user name and a password.\<close>

definition env_with_key :: env where
  "env_with_key =
     \<lparr> SPAMHAUS_INTEL_API_KEY = Some ''key'', SPAMHAUS_API_KEY = None, SPAMHAUS_INTEL_TOKEN = None,
       SPAMHAUS_INTEL_USERNAME = None, SPAMHAUS_INTEL_PASSWORD = None \<rparr>"

definition env_with_login :: env where
  "env_with_login =
     \<lparr> SPAMHAUS_INTEL_API_KEY = None, SPAMHAUS_API_KEY = None, SPAMHAUS_INTEL_TOKEN = None,
       SPAMHAUS_INTEL_USERNAME = Some ''user'', SPAMHAUS_INTEL_PASSWORD = Some ''secret'' \<rparr>"

text \<open>
  A request of the examples: the clock runs from 1000 to 1500 ms, the Spamhaus lookup is
  answered by \<open>lookup\<close>, the availability call names a snapshot and the CDX call lists
  278 of them.
\<close>

definition example_world :: "int \<Rightarrow> (nat \<Rightarrow> string outcome) \<Rightarrow> world" where
  "example_world start lookup =
     \<lparr> now_lookup = start, now_token = start + 1, login_net = always_503, now_login = start + 2,
       lookup_net = lookup, avail_net = avail_answer ''20260212093000'', cdx_net = cdx_answer 278,
       now_store = start + 500 \<rparr>"

definition empty_state :: server_state where
  "empty_state = \<lparr> checkCache = Map.empty, spamhausIntelAuth = None \<rparr>"

text \<open>
  The conversions of the examples: \<open>Number(s)\<close> reads a string of decimal digits, and
  \<open>String(n)\<close> writes a number that is a non-negative integer; that is all the examples
  convert.
\<close>

definition number_text :: "jsnum \<Rightarrow> string" where
  "number_text n =
     (case n of
        Fin q \<Rightarrow> (if 0 \<le> q \<and> q = rat_of_int \<lfloor>q\<rfloor> then show_nat (nat \<lfloor>q\<rfloor>) else ''NaN'')
      | _ \<Rightarrow> ''NaN'')"

definition example_conv :: js_conv where
  "example_conv = \<lparr> num_of_string = digits_number, string_of_num = number_text \<rparr>"



section \<open>Properties of the search handler\<close>

subsection \<open>Pagination\<close>

lemma bind_err_simps [simp]:
  "bind_err (Inl err) f = Inl err"
  "bind_err (Inr x) f = f x"
  by (simp_all add: bind_err_def)

lemma bind_err_InrD:
  "bind_err m f = Inr y \<Longrightarrow> \<exists>x. m = Inr x \<and> f x = Inr y"
  by (cases m) simp_all

lemma read_body_fields:
  assumes "read_body conv raw = Inr b"
  shows "js_Number conv (get_member raw ''pageSize'') = Inr (body_pageSize b) \<and>
         js_Number conv (get_member raw ''page'') = Inr (body_page b) \<and>
         read_criteria conv (get_member raw ''criteria'') = Inr (body_criteria b)"
  using assms by (auto simp: read_body_def dest!: bind_err_InrD)

lemma clampInt_exact:
  assumes "lo \<le> hi"
  shows "clampInt n lo hi fallback =
     (case n of
        Fin q \<Rightarrow> (let t = (if 0 \<le> q then \<lfloor>q\<rfloor> else \<lceil>q\<rceil>)
                  in if t < lo then lo else if hi < t then hi else t)
      | _ \<Rightarrow> fallback)"
  using assms by (cases n) (auto simp: clampInt_def trunc_def Let_def)

lemma clampInt_bounds:
  assumes "lo \<le> hi" and "lo \<le> fallback" and "fallback \<le> hi"
  shows "lo \<le> clampInt n lo hi fallback \<and> clampInt n lo hi fallback \<le> hi"
  using assms by (cases n) (simp_all add: clampInt_def)

lemma search_answer:
  assumes "search conv d meta raw = Inr resp"
  shows "\<exists>dc body.
           domain_column_of meta = Some dc \<and> read_body conv raw = Inr body \<and>
           page resp = page_of body \<and> pageSize resp = pageSize_of body \<and>
           totalPages resp = totalPages_of (total resp) (pageSize resp) \<and>
           count_query d
             (countSql meta (compile_where (num_of_string conv) meta (resolve_roles meta dc) (body_criteria body)))
             (values_list (compile_where (num_of_string conv) meta (resolve_roles meta dc) (body_criteria body))) =
             Inr (total resp) \<and>
           list_query d
             (listSql meta (resolve_roles meta dc)
                (compile_where (num_of_string conv) meta (resolve_roles meta dc) (body_criteria body)))
             (values_list (compile_where (num_of_string conv) meta (resolve_roles meta dc) (body_criteria body)) @
              [SInt (pageSize_of body), SInt (offset_of body)]) =
             Inr (items resp)"
proof -
  from assms obtain dc where dc: "domain_column_of meta = Some dc"
    by (auto simp: search_def split: option.splits)
  from assms dc obtain body where body: "read_body conv raw = Inr body"
    by (auto simp: search_def split: sum.splits)
  define st where "st = compile_where (num_of_string conv) meta (resolve_roles meta dc) (body_criteria body)"
  from assms dc body obtain n where n: "count_query d (countSql meta st) (values_list st) = Inr n"
    by (auto simp: search_def Let_def st_def split: sum.splits)
  from assms dc body n obtain rows where
    rows: "list_query d (listSql meta (resolve_roles meta dc) st)
             (values_list st @ [SInt (pageSize_of body), SInt (offset_of body)]) = Inr rows"
    by (auto simp: search_def Let_def st_def split: sum.splits)
  from assms dc body n rows have
    "resp = \<lparr> page = page_of body, pageSize = pageSize_of body, total = n,
              totalPages = totalPages_of n (pageSize_of body), items = rows \<rparr>"
    by (simp add: search_def Let_def st_def)
  with dc body n rows show ?thesis
    unfolding st_def by auto
qed

lemma search_conversion_throws:
  assumes "domain_column_of meta = Some dc" and "read_body conv raw = Inl err"
  shows "search conv d meta raw = Inl (500, error_message (message_of err) ''Search failed'')"
  using assms by (simp add: search_def)

lemma listSql_tail:
  "listSql meta r st =
     (nl @ ''      SELECT'' @ nl @
      ''        '' @ join_str ('','' @ nl @ ''        '') (selectCols meta r) @ nl @
      ''      FROM '' @ tableSql meta @ nl @
      ''      '' @ whereSql st @ nl) @
     ''      ORDER BY '' @ quoteIdent (domainColumn r) @ '' ASC'' @ nl @
     ''      LIMIT $'' @ show_nat (length (values_list st) + 1) @ nl @
     ''      OFFSET $'' @ show_nat (length (values_list st) + 2) @ '';'' @ nl @ ''    ''"
  by (simp add: listSql_def)

text \<open>
  C5. The handler reads \<open>Number(body.pageSize)\<close> and \<open>Number(body.page)\<close>. The page size
  is that number truncated towards zero and clamped: 1 below 1, 500 above 500, the value
  itself in between, and the default 50 when the number is not finite, as for an absent
  member or a text that is no number; the page likewise with 1 as lower bound and as
  default. So the page size lies between 1 and 500 and the page is at least 1, whatever
  is sent; 10000 becomes 500, a page of 0 becomes 1, and a page size from 1 to 500 is
  kept. The values \<open>null\<close>, \<open>false\<close> and the empty string count as the number 0, so they
  give 1 and not the default. A successful answer carries these two values and
  \<open>totalPages = max(1, ceil(total / pageSize))\<close>; its rows are the answer to the page query,
  which ends in \<open>ORDER BY domain ASC LIMIT $n+1 OFFSET $n+2\<close> after the \<open>n\<close> parameters of
  the criteria, with \<open>pageSize\<close> and \<open>(page - 1) * pageSize\<close> bound to these two
  placeholders. A value whose conversion throws ends the request with status 500, before
  any query.
\<close>

theorem pagination_clamped:
  "(read_body conv raw = Inr b \<longrightarrow>
      js_Number conv (get_member raw ''pageSize'') = Inr (body_pageSize b) \<and>
      js_Number conv (get_member raw ''page'') = Inr (body_page b)) \<and>
   pageSize_of b =
     (case body_pageSize b of
        Fin q \<Rightarrow> (let t = (if 0 \<le> q then \<lfloor>q\<rfloor> else \<lceil>q\<rceil>)
                  in if t < 1 then 1 else if 500 < t then 500 else t)
      | _ \<Rightarrow> 50) \<and>
   page_of b =
     (case body_page b of
        Fin q \<Rightarrow> (let t = (if 0 \<le> q then \<lfloor>q\<rfloor> else \<lceil>q\<rceil>)
                  in if t < 1 then 1 else if 1000000000 < t then 1000000000 else t)
      | _ \<Rightarrow> 1) \<and>
   1 \<le> pageSize_of b \<and> pageSize_of b \<le> 500 \<and> 1 \<le> page_of b \<and>
   (read_body conv raw = Inr b \<and> get_member raw ''pageSize'' = JNum (Fin 10000) \<longrightarrow>
      pageSize_of b = 500) \<and>
   (read_body conv raw = Inr b \<and> get_member raw ''page'' = JNum (Fin 0) \<longrightarrow> page_of b = 1) \<and>
   (read_body conv raw = Inr b \<and> get_member raw ''pageSize'' = JNum (Fin (rat_of_int k)) \<and>
    1 \<le> k \<and> k \<le> 500 \<longrightarrow> pageSize_of b = k) \<and>
   (read_body conv raw = Inr b \<and> get_member raw ''page'' = JNum (Fin (rat_of_int k)) \<and>
    1 \<le> k \<and> k \<le> 1000000000 \<longrightarrow> page_of b = k) \<and>
   (read_body conv raw = Inr b \<and> get_member raw ''pageSize'' = JUndefined \<longrightarrow> pageSize_of b = 50) \<and>
   (read_body conv raw = Inr b \<and> get_member raw ''page'' = JUndefined \<longrightarrow> page_of b = 1) \<and>
   (\<forall>resp. search conv d meta raw = Inr resp \<longrightarrow>
      (\<exists>dc body.
         domain_column_of meta = Some dc \<and> read_body conv raw = Inr body \<and>
         page resp = page_of body \<and> pageSize resp = pageSize_of body \<and>
         totalPages resp = max 1 \<lceil>rat_of_nat (total resp) / rat_of_int (pageSize resp)\<rceil> \<and>
         (let r = resolve_roles meta dc;
              st = compile_where (num_of_string conv) meta r (body_criteria body);
              n = length (values_list st);
              params = values_list st @ [SInt (pageSize resp), SInt ((page resp - 1) * pageSize resp)]
          in count_query d (countSql meta st) (values_list st) = Inr (total resp) \<and>
             list_query d (listSql meta r st) params = Inr (items resp) \<and>
             listSql meta r st =
               (nl @ ''      SELECT'' @ nl @
                ''        '' @ join_str ('','' @ nl @ ''        '') (selectCols meta r) @ nl @
                ''      FROM '' @ tableSql meta @ nl @
                ''      '' @ whereSql st @ nl) @
               ''      ORDER BY '' @ quoteIdent dc @ '' ASC'' @ nl @
               ''      LIMIT $'' @ show_nat (n + 1) @ nl @
               ''      OFFSET $'' @ show_nat (n + 2) @ '';'' @ nl @ ''    '' \<and>
             length params = n + 2 \<and>
             params ! n = SInt (pageSize resp) \<and>
             params ! (n + 1) = SInt ((page resp - 1) * pageSize resp)))) \<and>
   (domain_column_of meta \<noteq> None \<and> read_body conv raw = Inl err \<longrightarrow>
      search conv d meta raw = Inl (500, error_message (message_of err) ''Search failed'')) \<and>
   (read_body conv raw = Inr b \<and> get_member raw ''pageSize'' = JNull \<longrightarrow> pageSize_of b = 1) \<and>
   (read_body conv raw = Inr b \<and> get_member raw ''page'' = JNull \<longrightarrow> page_of b = 1)"
proof -
  have nums: "read_body conv raw = Inr b \<longrightarrow>
      js_Number conv (get_member raw ''pageSize'') = Inr (body_pageSize b) \<and>
      js_Number conv (get_member raw ''page'') = Inr (body_page b)"
    using read_body_fields [of conv raw b] by blast
  have ps: "pageSize_of b =
     (case body_pageSize b of
        Fin q \<Rightarrow> (let t = (if 0 \<le> q then \<lfloor>q\<rfloor> else \<lceil>q\<rceil>)
                  in if t < 1 then 1 else if 500 < t then 500 else t)
      | _ \<Rightarrow> 50)"
    unfolding pageSize_of_def by (rule clampInt_exact) simp
  have pg: "page_of b =
     (case body_page b of
        Fin q \<Rightarrow> (let t = (if 0 \<le> q then \<lfloor>q\<rfloor> else \<lceil>q\<rceil>)
                  in if t < 1 then 1 else if 1000000000 < t then 1000000000 else t)
      | _ \<Rightarrow> 1)"
    unfolding page_of_def by (rule clampInt_exact) simp
  have bounds: "1 \<le> pageSize_of b \<and> pageSize_of b \<le> 500 \<and> 1 \<le> page_of b"
    using clampInt_bounds [of 1 500 50 "body_pageSize b"]
      clampInt_bounds [of 1 1000000000 1 "body_page b"]
    by (simp add: pageSize_of_def page_of_def)
  have num_ps: "body_pageSize b = n"
    if "read_body conv raw = Inr b" and "get_member raw ''pageSize'' = JNum n" for n
    using read_body_fields [OF that(1)] that(2) by (simp add: js_Number_def)
  have num_pg: "body_page b = n"
    if "read_body conv raw = Inr b" and "get_member raw ''page'' = JNum n" for n
    using read_body_fields [OF that(1)] that(2) by (simp add: js_Number_def)
  have nan_ps: "body_pageSize b = NaN"
    if "read_body conv raw = Inr b" and "get_member raw ''pageSize'' = JUndefined"
    using read_body_fields [OF that(1)] that(2) by (simp add: js_Number_def)
  have nan_pg: "body_page b = NaN"
    if "read_body conv raw = Inr b" and "get_member raw ''page'' = JUndefined"
    using read_body_fields [OF that(1)] that(2) by (simp add: js_Number_def)
  have big: "read_body conv raw = Inr b \<and> get_member raw ''pageSize'' = JNum (Fin 10000) \<longrightarrow>
      pageSize_of b = 500"
    using num_ps [of "Fin 10000"] by (auto simp: pageSize_of_def clampInt_def trunc_def)
  have zero: "read_body conv raw = Inr b \<and> get_member raw ''page'' = JNum (Fin 0) \<longrightarrow> page_of b = 1"
    using num_pg [of "Fin 0"] by (auto simp: page_of_def clampInt_def trunc_def)
  have keep_ps: "read_body conv raw = Inr b \<and> get_member raw ''pageSize'' = JNum (Fin (rat_of_int k)) \<and>
    1 \<le> k \<and> k \<le> 500 \<longrightarrow> pageSize_of b = k"
    using num_ps [of "Fin (rat_of_int k)"] by (auto simp: pageSize_of_def clampInt_def trunc_def)
  have keep_pg: "read_body conv raw = Inr b \<and> get_member raw ''page'' = JNum (Fin (rat_of_int k)) \<and>
    1 \<le> k \<and> k \<le> 1000000000 \<longrightarrow> page_of b = k"
    using num_pg [of "Fin (rat_of_int k)"] by (auto simp: page_of_def clampInt_def trunc_def)
  have dflt_ps: "read_body conv raw = Inr b \<and> get_member raw ''pageSize'' = JUndefined \<longrightarrow>
      pageSize_of b = 50"
    using nan_ps by (auto simp: pageSize_of_def clampInt_def)
  have dflt_pg: "read_body conv raw = Inr b \<and> get_member raw ''page'' = JUndefined \<longrightarrow> page_of b = 1"
    using nan_pg by (auto simp: page_of_def clampInt_def)
  have resp: "\<forall>resp. search conv d meta raw = Inr resp \<longrightarrow>
      (\<exists>dc body.
         domain_column_of meta = Some dc \<and> read_body conv raw = Inr body \<and>
         page resp = page_of body \<and> pageSize resp = pageSize_of body \<and>
         totalPages resp = max 1 \<lceil>rat_of_nat (total resp) / rat_of_int (pageSize resp)\<rceil> \<and>
         (let r = resolve_roles meta dc;
              st = compile_where (num_of_string conv) meta r (body_criteria body);
              n = length (values_list st);
              params = values_list st @ [SInt (pageSize resp), SInt ((page resp - 1) * pageSize resp)]
          in count_query d (countSql meta st) (values_list st) = Inr (total resp) \<and>
             list_query d (listSql meta r st) params = Inr (items resp) \<and>
             listSql meta r st =
               (nl @ ''      SELECT'' @ nl @
                ''        '' @ join_str ('','' @ nl @ ''        '') (selectCols meta r) @ nl @
                ''      FROM '' @ tableSql meta @ nl @
                ''      '' @ whereSql st @ nl) @
               ''      ORDER BY '' @ quoteIdent dc @ '' ASC'' @ nl @
               ''      LIMIT $'' @ show_nat (n + 1) @ nl @
               ''      OFFSET $'' @ show_nat (n + 2) @ '';'' @ nl @ ''    '' \<and>
             length params = n + 2 \<and>
             params ! n = SInt (pageSize resp) \<and>
             params ! (n + 1) = SInt ((page resp - 1) * pageSize resp)))"
  proof (intro allI impI)
    fix resp assume a: "search conv d meta raw = Inr resp"
    from search_answer [OF a] obtain dc body where
      f: "domain_column_of meta = Some dc" "read_body conv raw = Inr body"
        "page resp = page_of body" "pageSize resp = pageSize_of body"
        "totalPages resp = totalPages_of (total resp) (pageSize resp)"
        "count_query d
           (countSql meta (compile_where (num_of_string conv) meta (resolve_roles meta dc) (body_criteria body)))
           (values_list (compile_where (num_of_string conv) meta (resolve_roles meta dc) (body_criteria body))) =
           Inr (total resp)"
        "list_query d
           (listSql meta (resolve_roles meta dc)
              (compile_where (num_of_string conv) meta (resolve_roles meta dc) (body_criteria body)))
           (values_list (compile_where (num_of_string conv) meta (resolve_roles meta dc) (body_criteria body)) @
            [SInt (pageSize_of body), SInt (offset_of body)]) =
           Inr (items resp)"
      by blast
    have dcr: "domainColumn (resolve_roles meta dc) = dc"
      by (simp add: resolve_roles_def)
    show "(\<exists>dc body.
         domain_column_of meta = Some dc \<and> read_body conv raw = Inr body \<and>
         page resp = page_of body \<and> pageSize resp = pageSize_of body \<and>
         totalPages resp = max 1 \<lceil>rat_of_nat (total resp) / rat_of_int (pageSize resp)\<rceil> \<and>
         (let r = resolve_roles meta dc;
              st = compile_where (num_of_string conv) meta r (body_criteria body);
              n = length (values_list st);
              params = values_list st @ [SInt (pageSize resp), SInt ((page resp - 1) * pageSize resp)]
          in count_query d (countSql meta st) (values_list st) = Inr (total resp) \<and>
             list_query d (listSql meta r st) params = Inr (items resp) \<and>
             listSql meta r st =
               (nl @ ''      SELECT'' @ nl @
                ''        '' @ join_str ('','' @ nl @ ''        '') (selectCols meta r) @ nl @
                ''      FROM '' @ tableSql meta @ nl @
                ''      '' @ whereSql st @ nl) @
               ''      ORDER BY '' @ quoteIdent dc @ '' ASC'' @ nl @
               ''      LIMIT $'' @ show_nat (n + 1) @ nl @
               ''      OFFSET $'' @ show_nat (n + 2) @ '';'' @ nl @ ''    '' \<and>
             length params = n + 2 \<and>
             params ! n = SInt (pageSize resp) \<and>
             params ! (n + 1) = SInt ((page resp - 1) * pageSize resp)))"
      apply (rule exI [of _ dc], rule exI [of _ body])
      using f dcr
      by (simp add: Let_def totalPages_of_def offset_of_def listSql_tail nth_append)
  qed
  have thrown: "domain_column_of meta \<noteq> None \<and> read_body conv raw = Inl err \<longrightarrow>
      search conv d meta raw = Inl (500, error_message (message_of err) ''Search failed'')"
    using search_conversion_throws [of meta _ conv raw err d] by auto
  have zero_ps: "body_pageSize b = Fin 0"
    if "read_body conv raw = Inr b" and "get_member raw ''pageSize'' = JNull"
    using read_body_fields [OF that(1)] that(2) by (simp add: js_Number_def)
  have zero_pg: "body_page b = Fin 0"
    if "read_body conv raw = Inr b" and "get_member raw ''page'' = JNull"
    using read_body_fields [OF that(1)] that(2) by (simp add: js_Number_def)
  have null_ps: "read_body conv raw = Inr b \<and> get_member raw ''pageSize'' = JNull \<longrightarrow>
      pageSize_of b = 1"
    using zero_ps by (auto simp: pageSize_of_def clampInt_def trunc_def)
  have null_pg: "read_body conv raw = Inr b \<and> get_member raw ''page'' = JNull \<longrightarrow> page_of b = 1"
    using zero_pg by (auto simp: page_of_def clampInt_def trunc_def)
  from nums ps pg bounds big zero keep_ps keep_pg dflt_ps dflt_pg resp thrown null_ps null_pg
  show ?thesis
    by (intro conjI) (elim conjE, assumption)+
qed

lemma example_bodies:
  "read_body example_conv (JObj [(''pageSize'', JNum (Fin 10000)), (''page'', JNum (Fin 0))]) =
     Inr \<lparr> body_pageSize = Fin 10000, body_page = Fin 0, body_criteria = absent_criteria \<rparr>"
  "read_body example_conv (JObj [(''pageSize'', JNum (Fin 25)), (''page'', JNum (Fin 3))]) =
     Inr \<lparr> body_pageSize = Fin 25, body_page = Fin 3, body_criteria = absent_criteria \<rparr>"
  "read_body example_conv (JObj []) =
     Inr \<lparr> body_pageSize = NaN, body_page = NaN, body_criteria = absent_criteria \<rparr>"
  "read_body example_conv (JObj [(''pageSize'', JObj [(''toString'', JNum (Fin 1))])]) = Inl cannot_convert"
  "read_body example_conv (JObj [(''pageSize'', JNull), (''page'', JNull)]) =
     Inr \<lparr> body_pageSize = Fin 0, body_page = Fin 0, body_criteria = absent_criteria \<rparr>"
  by code_simp+

lemma example_page:
  "search example_conv (answering_db 1234 ([] :: nat list)) (text_table [''domain''])
     (JObj [(''pageSize'', JNum (Fin 25)), (''page'', JNum (Fin 3))]) =
     Inr \<lparr> page = 3, pageSize = 25, total = 1234, totalPages = 50, items = ([] :: nat list) \<rparr>"
  by code_simp

lemma domain_table: "domain_column_of (text_table [''domain'']) \<noteq> None"
  by code_simp

theorem pagination_clamped_witness:
  "read_body example_conv (JObj [(''pageSize'', JNum (Fin 10000)), (''page'', JNum (Fin 0))]) =
     Inr \<lparr> body_pageSize = Fin 10000, body_page = Fin 0, body_criteria = absent_criteria \<rparr> \<and>
   get_member (JObj [(''pageSize'', JNum (Fin 10000)), (''page'', JNum (Fin 0))]) ''pageSize'' = JNum (Fin 10000) \<and>
   get_member (JObj [(''pageSize'', JNum (Fin 10000)), (''page'', JNum (Fin 0))]) ''page'' = JNum (Fin 0) \<and>
   pageSize_of \<lparr> body_pageSize = Fin 10000, body_page = Fin 0, body_criteria = absent_criteria \<rparr> = 500 \<and>
   page_of \<lparr> body_pageSize = Fin 10000, body_page = Fin 0, body_criteria = absent_criteria \<rparr> = 1 \<and>
   read_body example_conv (JObj [(''pageSize'', JNum (Fin 25)), (''page'', JNum (Fin 3))]) =
     Inr \<lparr> body_pageSize = Fin 25, body_page = Fin 3, body_criteria = absent_criteria \<rparr> \<and>
   get_member (JObj [(''pageSize'', JNum (Fin 25)), (''page'', JNum (Fin 3))]) ''pageSize'' = JNum (Fin (rat_of_int 25)) \<and>
   (1 :: int) \<le> 25 \<and> (25 :: int) \<le> 500 \<and>
   pageSize_of \<lparr> body_pageSize = Fin 25, body_page = Fin 3, body_criteria = absent_criteria \<rparr> = 25 \<and>
   read_body example_conv (JObj []) =
     Inr \<lparr> body_pageSize = NaN, body_page = NaN, body_criteria = absent_criteria \<rparr> \<and>
   get_member (JObj []) ''pageSize'' = JUndefined \<and>
   get_member (JObj []) ''page'' = JUndefined \<and>
   pageSize_of \<lparr> body_pageSize = NaN, body_page = NaN, body_criteria = absent_criteria \<rparr> = 50 \<and>
   page_of \<lparr> body_pageSize = NaN, body_page = NaN, body_criteria = absent_criteria \<rparr> = 1 \<and>
   search example_conv (answering_db 1234 ([] :: nat list)) (text_table [''domain''])
     (JObj [(''pageSize'', JNum (Fin 25)), (''page'', JNum (Fin 3))]) =
     Inr \<lparr> page = 3, pageSize = 25, total = 1234, totalPages = 50, items = ([] :: nat list) \<rparr> \<and>
   totalPages \<lparr> page = 3, pageSize = 25, total = 1234, totalPages = 50, items = ([] :: nat list) \<rparr> =
     max 1 \<lceil>rat_of_nat (total \<lparr> page = 3, pageSize = 25, total = 1234, totalPages = 50, items = ([] :: nat list) \<rparr>) /
            rat_of_int (pageSize \<lparr> page = 3, pageSize = 25, total = 1234, totalPages = 50, items = ([] :: nat list) \<rparr>)\<rceil> \<and>
   domain_column_of (text_table [''domain'']) \<noteq> None \<and>
   read_body example_conv (JObj [(''pageSize'', JObj [(''toString'', JNum (Fin 1))])]) = Inl cannot_convert \<and>
   search example_conv (answering_db 1234 ([] :: nat list)) (text_table [''domain''])
     (JObj [(''pageSize'', JObj [(''toString'', JNum (Fin 1))])]) =
     Inl (500, ''Cannot convert object to primitive value'') \<and>
   read_body example_conv (JObj [(''pageSize'', JNull), (''page'', JNull)]) =
     Inr \<lparr> body_pageSize = Fin 0, body_page = Fin 0, body_criteria = absent_criteria \<rparr> \<and>
   get_member (JObj [(''pageSize'', JNull), (''page'', JNull)]) ''pageSize'' = JNull \<and>
   get_member (JObj [(''pageSize'', JNull), (''page'', JNull)]) ''page'' = JNull \<and>
   pageSize_of \<lparr> body_pageSize = Fin 0, body_page = Fin 0, body_criteria = absent_criteria \<rparr> = 1 \<and>
   page_of \<lparr> body_pageSize = Fin 0, body_page = Fin 0, body_criteria = absent_criteria \<rparr> = 1"
proof -
  let ?raw0 = "JObj [(''pageSize'', JNum (Fin 10000)), (''page'', JNum (Fin 0))]"
  let ?b0 = "\<lparr> body_pageSize = Fin 10000, body_page = Fin 0, body_criteria = absent_criteria \<rparr>"
  let ?raw1 = "JObj [(''pageSize'', JNum (Fin 25)), (''page'', JNum (Fin 3))]"
  let ?b1 = "\<lparr> body_pageSize = Fin 25, body_page = Fin 3, body_criteria = absent_criteria \<rparr>"
  let ?b2 = "\<lparr> body_pageSize = NaN, body_page = NaN, body_criteria = absent_criteria \<rparr>"
  let ?rawT = "JObj [(''pageSize'', JObj [(''toString'', JNum (Fin 1))])]"
  let ?rawN = "JObj [(''pageSize'', JNull), (''page'', JNull)]"
  let ?bN = "\<lparr> body_pageSize = Fin 0, body_page = Fin 0, body_criteria = absent_criteria \<rparr>"
  let ?r1 = "\<lparr> page = 3, pageSize = 25, total = 1234, totalPages = 50, items = ([] :: nat list) \<rparr>"
  let ?d = "(answering_db 1234 ([] :: nat list))"
  let ?m = "(text_table [''domain''])"
  note T = pagination_clamped
  note rb = example_bodies
  have g0: "get_member ?raw0 ''pageSize'' = JNum (Fin 10000)" "get_member ?raw0 ''page'' = JNum (Fin 0)"
    by (simp_all add: get_member_def)
  have g1: "get_member ?raw1 ''pageSize'' = JNum (Fin (rat_of_int 25))"
    by (simp add: get_member_def)
  have g2: "get_member (JObj []) ''pageSize'' = JUndefined" "get_member (JObj []) ''page'' = JUndefined"
    by (simp_all add: get_member_def)
  have r25: "(1 :: int) \<le> 25 \<and> (25 :: int) \<le> 500" by simp
  have ps0: "pageSize_of ?b0 = 500"
    by (rule T [where conv = example_conv and raw = ?raw0 and b = ?b0, THEN conjunct2,
                THEN conjunct2, THEN conjunct2, THEN conjunct2, THEN conjunct2, THEN conjunct2,
                THEN conjunct1,
                THEN mp, OF conjI [OF rb(1) g0(1)]])
  have pg0: "page_of ?b0 = 1"
    by (rule T [where conv = example_conv and raw = ?raw0 and b = ?b0, THEN conjunct2,
                THEN conjunct2, THEN conjunct2, THEN conjunct2, THEN conjunct2, THEN conjunct2,
                THEN conjunct2, THEN conjunct1,
                THEN mp, OF conjI [OF rb(1) g0(2)]])
  have ps1: "pageSize_of ?b1 = 25"
    by (rule T [where conv = example_conv and raw = ?raw1 and b = ?b1 and k = 25, THEN conjunct2,
                THEN conjunct2, THEN conjunct2, THEN conjunct2, THEN conjunct2, THEN conjunct2,
                THEN conjunct2, THEN conjunct2,
                THEN conjunct1, THEN mp, OF conjI [OF rb(2) conjI [OF g1 r25]]])
  have ps2: "pageSize_of ?b2 = 50"
    by (rule T [where conv = example_conv and raw = "JObj []" and b = ?b2, THEN conjunct2,
                THEN conjunct2, THEN conjunct2, THEN conjunct2, THEN conjunct2, THEN conjunct2,
                THEN conjunct2, THEN conjunct2, THEN conjunct2, THEN conjunct2, THEN conjunct1,
                THEN mp, OF conjI [OF rb(3) g2(1)]])
  have pg2: "page_of ?b2 = 1"
    by (rule T [where conv = example_conv and raw = "JObj []" and b = ?b2, THEN conjunct2,
                THEN conjunct2, THEN conjunct2, THEN conjunct2, THEN conjunct2, THEN conjunct2,
                THEN conjunct2, THEN conjunct2, THEN conjunct2, THEN conjunct2, THEN conjunct2,
                THEN conjunct1,
                THEN mp, OF conjI [OF rb(3) g2(2)]])
  from T [where conv = example_conv and raw = ?raw1 and d = ?d and meta = ?m, THEN conjunct2,
                THEN conjunct2, THEN conjunct2, THEN conjunct2, THEN conjunct2, THEN conjunct2,
                THEN conjunct2, THEN conjunct2, THEN conjunct2, THEN conjunct2, THEN conjunct2,
                THEN conjunct2,
          THEN conjunct1, THEN spec, THEN mp, OF example_page]
  have tp: "totalPages ?r1 = max 1 \<lceil>rat_of_nat (total ?r1) / rat_of_int (pageSize ?r1)\<rceil>"
    by (elim exE conjE) assumption
  have thrown: "search example_conv ?d ?m ?rawT = Inl (500, ''Cannot convert object to primitive value'')"
    using T [where conv = example_conv and raw = ?rawT and d = ?d and meta = ?m and err = cannot_convert,
             THEN conjunct2, THEN conjunct2, THEN conjunct2, THEN conjunct2, THEN conjunct2,
                THEN conjunct2, THEN conjunct2, THEN conjunct2, THEN conjunct2, THEN conjunct2,
                THEN conjunct2, THEN conjunct2, THEN conjunct2, THEN conjunct1, THEN mp,
                OF conjI [OF domain_table rb(4)]]
    by (simp add: cannot_convert_def error_message_def)
  have gN: "get_member ?rawN ''pageSize'' = JNull" "get_member ?rawN ''page'' = JNull"
    by (simp_all add: get_member_def)
  have psN: "pageSize_of ?bN = 1"
    by (rule T [where conv = example_conv and raw = ?rawN and b = ?bN, THEN conjunct2,
                THEN conjunct2, THEN conjunct2, THEN conjunct2, THEN conjunct2, THEN conjunct2,
                THEN conjunct2, THEN conjunct2, THEN conjunct2, THEN conjunct2, THEN conjunct2,
                THEN conjunct2, THEN conjunct2, THEN conjunct2, THEN conjunct1,
                THEN mp, OF conjI [OF rb(5) gN(1)]])
  have pgN: "page_of ?bN = 1"
    by (rule T [where conv = example_conv and raw = ?rawN and b = ?bN, THEN conjunct2,
                THEN conjunct2, THEN conjunct2, THEN conjunct2, THEN conjunct2, THEN conjunct2,
                THEN conjunct2, THEN conjunct2, THEN conjunct2, THEN conjunct2, THEN conjunct2,
                THEN conjunct2, THEN conjunct2, THEN conjunct2, THEN conjunct2,
                THEN mp, OF conjI [OF rb(5) gN(2)]])
  from rb(1) g0 ps0 pg0 rb(2) g1 r25 ps1 rb(3) g2 ps2 pg2 example_page tp domain_table rb(4) thrown
    rb(5) gN psN pgN
  show ?thesis by (intro conjI) (elim conjE, assumption)+
qed

subsection \<open>The lifecycle filter\<close>

text \<open>The roles resolved on the example tables.\<close>

lemma roles_domain_expiration:
  "resolve_roles (text_table [''domain'', ''expiration_date'']) ''domain'' =
     \<lparr> domainColumn = ''domain'', tldColumn = None, createdColumn = None,
       expiresColumn = Some ''expiration_date'', scheduledDeleteColumn = None,
       deletedAtColumn = None, deletedFlagColumn = None, statusColumn = None \<rparr>"
  by code_simp

lemma roles_domain_status:
  "resolve_roles (text_table [''domain'', ''status'']) ''domain'' =
     \<lparr> domainColumn = ''domain'', tldColumn = None, createdColumn = None,
       expiresColumn = None, scheduledDeleteColumn = None,
       deletedAtColumn = None, deletedFlagColumn = None, statusColumn = Some ''status'' \<rparr>"
  by code_simp

lemma add_simps [simp]:
  "where_frags (add f vs st) = where_frags st @ [f]"
  "values_list (add f vs st) = values_list st @ vs"
  by (simp_all add: add_def)

lemma show_nat_1: "show_nat (Suc 0) = ''1''"
  by code_simp

lemma normalizeString_None [simp]: "normalizeString None = None"
  by (simp add: normalizeString_def)

lemma expiring_request:
  "lifecycle_of (absent_criteria\<lparr> lifecycleState := Some ''expiring'', expiringWithinDays := Fin 10 \<rparr>) =
     Some ''expiring''"
  by code_simp

lemma absent_steps [simp]:
  "add_literal meta col None frag val st = st"
  "add_safe_only meta False c st = st"
  by (simp_all add: add_literal_def add_safe_only_def)

text \<open>
  C1, in the form that holds of the code. Criteria
  \<open>{ lifecycleState: "expiring", expiringWithinDays: 10 }\<close> on metadata where, of the
  lifecycle columns, only an expiration-date column resolves (no status, deleted-flag,
  deleted-at or scheduled-delete column): the WHERE list is the range predicate alone, the
  expiration date in \<open>[NOW(), NOW() + $1 days)\<close> with 10 bound to \<open>$1\<close>. No \<open>NOT\<close>
  conjunct is there, since without a status column no deleted fragment is derived.
\<close>

theorem expiring_only_expiration_column:
  assumes "statusColumn r = None" and "deletedFlagColumn r = None" and "deletedAtColumn r = None"
    and "scheduledDeleteColumn r = None" and "expiresColumn r = Some ec"
  shows "compile_where num meta r
           (absent_criteria\<lparr> lifecycleState := Some ''expiring'', expiringWithinDays := Fin 10 \<rparr>) =
         \<lparr> where_frags =
             [''NULLIF('' @ quoteIdent ec @ ''::text, '' @ sq @ sq @ '')::timestamp >= NOW() AND '' @
              ''NULLIF('' @ quoteIdent ec @ ''::text, '' @ sq @ sq @ '')::timestamp < (NOW() + ($1::int || '' @
              sq @ '' days'' @ sq @ '')::interval)''],
           values_list = [SInt 10] \<rparr>"
proof -
  let ?crit = "absent_criteria\<lparr> lifecycleState := Some ''expiring'', expiringWithinDays := Fin 10 \<rparr>"
  let ?init = "\<lparr> where_frags = [], values_list = [] \<rparr>"
  have pre: "add_domainStartsWith r ?crit ?init = ?init" "add_domainEndsWith r ?crit ?init = ?init"
    "add_tld r ?crit ?init = ?init"
    by (simp_all add: add_domainStartsWith_def add_domainEndsWith_def add_tld_def splitList_def
        absent_criteria_def)
  have life: "add_lifecycle meta r ?crit ?init =
      add (range_fragment (quoteIdent ec) ?init) [SInt 10] ?init"
    using assms
    by (simp add: add_lifecycle_def expiring_request Let_def deletedClauses_def expiring_days_def trunc_def)
  have post: "\<And>st. add_creationDateFrom r ?crit st = st" "\<And>st. add_creationDateTo r ?crit st = st"
    "\<And>st. add_ageYears num r ?crit st = st" "\<And>st. add_countryByIp meta ?crit st = st"
    "\<And>st. add_registrarContains meta ?crit st = st" "\<And>st. add_technologiesContains meta ?crit st = st"
    "\<And>st. add_responseStatusContains meta ?crit st = st" "\<And>st. add_detectedHostsMin num meta ?crit st = st"
    "\<And>st. add_detectedHostsMax num meta ?crit st = st"  "\<And>st. add_expirationFrom r ?crit st = st"
    "\<And>st. add_expirationTo r ?crit st = st" "\<And>st. add_waybackMin num meta ?crit st = st"
    "\<And>st. add_safe_only meta (safeSpamhausOnly ?crit) (spamhausColumn meta) st = st"
    "\<And>st. add_safe_only meta (safeViewsTotalOnly ?crit) (viewsTotalColumn meta) st = st"
    by (simp_all add: add_creationDateFrom_def add_creationDateTo_def add_ageYears_def years_of_def
        add_countryByIp_def add_registrarContains_def add_technologiesContains_def
        add_responseStatusContains_def add_detectedHostsMin_def add_detectedHostsMax_def
        add_expirationFrom_def add_expirationTo_def add_waybackMin_def absent_criteria_def
        split: option.splits)
  have "compile_where num meta r ?crit = add (range_fragment (quoteIdent ec) ?init) [SInt 10] ?init"
    unfolding compile_where_def by (simp only: fold_simps pre life post)
  then show ?thesis
    by (simp add: add_def range_fragment_def nullif_text_def next_param_def show_nat_1)
qed

theorem expiring_only_expiration_column_witness:
  "statusColumn (resolve_roles (text_table [''domain'', ''expiration_date'']) ''domain'') = None \<and>
   deletedFlagColumn (resolve_roles (text_table [''domain'', ''expiration_date'']) ''domain'') = None \<and>
   deletedAtColumn (resolve_roles (text_table [''domain'', ''expiration_date'']) ''domain'') = None \<and>
   scheduledDeleteColumn (resolve_roles (text_table [''domain'', ''expiration_date'']) ''domain'') = None \<and>
   expiresColumn (resolve_roles (text_table [''domain'', ''expiration_date'']) ''domain'') = Some ''expiration_date'' \<and>
   compile_where no_number (text_table [''domain'', ''expiration_date''])
     (resolve_roles (text_table [''domain'', ''expiration_date'']) ''domain'')
     (absent_criteria\<lparr> lifecycleState := Some ''expiring'', expiringWithinDays := Fin 10 \<rparr>) =
   \<lparr> where_frags =
       [''NULLIF('' @ quoteIdent ''expiration_date'' @ ''::text, '' @ sq @ sq @ '')::timestamp >= NOW() AND '' @
        ''NULLIF('' @ quoteIdent ''expiration_date'' @ ''::text, '' @ sq @ sq @ '')::timestamp < (NOW() + ($1::int || '' @
        sq @ '' days'' @ sq @ '')::interval)''],
     values_list = [SInt 10] \<rparr>"
proof -
  let ?r = "resolve_roles (text_table [''domain'', ''expiration_date'']) ''domain''"
  have h1: "statusColumn ?r = None" by (simp add: roles_domain_expiration)
  have h2: "deletedFlagColumn ?r = None" by (simp add: roles_domain_expiration)
  have h3: "deletedAtColumn ?r = None" by (simp add: roles_domain_expiration)
  have h4: "scheduledDeleteColumn ?r = None" by (simp add: roles_domain_expiration)
  have h5: "expiresColumn ?r = Some ''expiration_date''" by (simp add: roles_domain_expiration)
  from expiring_only_expiration_column [OF h1 h2 h3 h4 h5] h1 h2 h3 h4 h5
  show ?thesis by simp
qed

text \<open>
  C1, as the specification states it, has a \<open>NOT deletedFragment\<close> conjunct next to the
  range predicate. On a table with the columns \<open>domain\<close> and \<open>expiration_date\<close> the
  list has one fragment, and it does not start with \<open>NOT\<close>.
\<close>

theorem expiring_without_status_counterexample:
  "length (where_frags
     (compile_where no_number (text_table [''domain'', ''expiration_date''])
        (resolve_roles (text_table [''domain'', ''expiration_date'']) ''domain'')
        (absent_criteria\<lparr> lifecycleState := Some ''expiring'', expiringWithinDays := Fin 10 \<rparr>))) = 1 \<and>
   \<not> starts_with (hd (where_frags
     (compile_where no_number (text_table [''domain'', ''expiration_date''])
        (resolve_roles (text_table [''domain'', ''expiration_date'']) ''domain'')
        (absent_criteria\<lparr> lifecycleState := Some ''expiring'', expiringWithinDays := Fin 10 \<rparr>)))) ''NOT''"
  by code_simp

lemma extends_refl [simp]: "extends st st"
  by (simp add: extends_def)

lemma extends_trans: "extends a b \<Longrightarrow> extends b c \<Longrightarrow> extends a c"
  by (auto simp: extends_def)

lemma extends_add [simp]: "extends st (add f vs st)"
  by (simp add: extends_def)

lemma extends_add2: "extends st (add g ws (add f vs st))"
  by (simp add: extends_def)

lemma fold_extends:
  "(\<And>f s. f \<in> set fs \<Longrightarrow> extends s (f s)) \<Longrightarrow> extends st (fold (\<lambda>step st. step st) fs st)"
proof (induction fs arbitrary: st)
  case Nil
  then show ?case by simp
next
  case (Cons g gs)
  have "extends st (g st)" using Cons.prems by simp
  moreover have "extends (g st) (fold (\<lambda>step st. step st) gs (g st))"
    using Cons.IH Cons.prems by simp
  ultimately show ?case using extends_trans by fastforce
qed

lemma later_steps_extend:
  "extends st (add_creationDateFrom r crit st)"
  "extends st (add_creationDateTo r crit st)"
  "extends st (add_ageYears num r crit st)"
  "extends st (add_literal meta col v frag val st)"
  "extends st (add_expirationFrom r crit st)"
  "extends st (add_expirationTo r crit st)"
  "extends st (add_waybackMin num meta crit st)"
  "extends st (add_safe_only meta flag c st)"
  by (auto simp: add_creationDateFrom_def add_creationDateTo_def add_ageYears_def Let_def
      add_literal_def add_expirationFrom_def add_expirationTo_def add_waybackMin_def
      add_safe_only_def extends_add2 split: option.splits bool.splits)

lemma compile_extends_lifecycle:
  "extends
     (add_lifecycle meta r crit
        (add_tld r crit (add_domainEndsWith r crit
           (add_domainStartsWith r crit \<lparr> where_frags = [], values_list = [] \<rparr>))))
     (compile_where num meta r crit)"
proof -
  let ?later = "[add_creationDateFrom r crit, add_creationDateTo r crit, add_ageYears num r crit,
        add_countryByIp meta crit, add_registrarContains meta crit, add_technologiesContains meta crit,
        add_responseStatusContains meta crit, add_detectedHostsMin num meta crit,
        add_detectedHostsMax num meta crit, add_expirationFrom r crit, add_expirationTo r crit,
        add_waybackMin num meta crit,
        add_safe_only meta (safeSpamhausOnly crit) (spamhausColumn meta),
        add_safe_only meta (safeViewsTotalOnly crit) (viewsTotalColumn meta)]"
  let ?st = "add_lifecycle meta r crit
        (add_tld r crit (add_domainEndsWith r crit
           (add_domainStartsWith r crit \<lparr> where_frags = [], values_list = [] \<rparr>)))"
  have eq: "compile_where num meta r crit = fold (\<lambda>step st. step st) ?later ?st"
    by (simp add: compile_where_def)
  have "extends s (f s)" if "f \<in> set ?later" for f s
    using that
    by (auto simp: later_steps_extend add_countryByIp_def add_registrarContains_def
        add_technologiesContains_def add_responseStatusContains_def add_detectedHostsMin_def
        add_detectedHostsMax_def)
  then have "extends ?st (fold (\<lambda>step st. step st) ?later ?st)"
    by (rule fold_extends)
  with eq show ?thesis by simp
qed

lemma lifecycle_status_fallback:
  assumes "deletedFlagColumn r = None" and "deletedAtColumn r = None"
    and "statusColumn r = Some sc" and "lifecycle_of crit = Some l"
  shows "\<exists>ws vs.
           where_frags (add_lifecycle meta r crit st0) =
             where_frags st0 @ [status_ilike (quoteIdent sc) st0] @ ws \<and>
           values_list (add_lifecycle meta r crit st0) =
             values_list st0 @ [STextList deleted_patterns] @ vs \<and>
           (l = ''deleted'' \<longrightarrow> ws = [status_ilike (quoteIdent sc) st0] \<and> vs = []) \<and>
           (l = ''expiring'' \<or> l = ''active'' \<longrightarrow>
              (\<exists>ws'. ws = (''NOT ('' @ status_ilike (quoteIdent sc) st0 @ '')'') # ws'))"
  using assms
  by (cases "scheduledDeleteColumn r"; cases "expiresColumn r")
     (simp_all add: add_lifecycle_def Let_def deletedClauses_def)

text \<open>The criteria member \<open>lifecycleState: "deleted"\<close> asks for the state \<open>deleted\<close>.\<close>

lemma deleted_state_requested:
  "lifecycleState crit = Some ''deleted'' \<Longrightarrow> lifecycle_of crit = Some ''deleted''"
proof -
  have "map_option toLowerCase (normalizeString (Some ''deleted'')) = Some ''deleted''"
    by code_simp
  then show "lifecycleState crit = Some ''deleted'' \<Longrightarrow> lifecycle_of crit = Some ''deleted''"
    by (simp add: lifecycle_of_def)
qed

text \<open>
  C2. On metadata with a status column and neither a deleted-flag nor a deleted-at column,
  criteria whose lifecycle state is \<open>deleted\<close> compile to a WHERE list that contains the
  status fallback \<open>status::text ILIKE ANY($k::text[])\<close>, with the patterns \<open>%deleted%\<close>,
  \<open>%dropped%\<close>, \<open>%removed%\<close> bound to \<open>$k\<close>: the criterion never compiles to nothing.
\<close>

theorem deleted_uses_status_fallback:
  assumes "deletedFlagColumn r = None" and "deletedAtColumn r = None"
    and "statusColumn r = Some sc" and "lifecycle_of crit = Some ''deleted''"
  shows "\<exists>k < length (values_list (compile_where num meta r crit)).
           values_list (compile_where num meta r crit) ! k =
             STextList [''%deleted%'', ''%dropped%'', ''%removed%''] \<and>
           quoteIdent sc @ ''::text ILIKE ANY($'' @ show_nat (Suc k) @ ''::text[])''
             \<in> set (where_frags (compile_where num meta r crit))"
proof -
  define st0 where "st0 = add_tld r crit (add_domainEndsWith r crit
           (add_domainStartsWith r crit \<lparr> where_frags = [], values_list = [] \<rparr>))"
  define q where "q = compile_where num meta r crit"
  from lifecycle_status_fallback [OF assms, of meta st0] obtain ws vs where
    w: "where_frags (add_lifecycle meta r crit st0) =
          where_frags st0 @ [status_ilike (quoteIdent sc) st0] @ ws"
    and v: "values_list (add_lifecycle meta r crit st0) =
          values_list st0 @ [STextList deleted_patterns] @ vs"
    by blast
  have "extends (add_lifecycle meta r crit st0) q"
    unfolding st0_def q_def by (rule compile_extends_lifecycle)
  then obtain ws2 vs2 where
    w2: "where_frags q = where_frags (add_lifecycle meta r crit st0) @ ws2"
    and v2: "values_list q = values_list (add_lifecycle meta r crit st0) @ vs2"
    by (auto simp: extends_def)
  let ?k = "length (values_list st0)"
  have "?k < length (values_list q)" by (simp add: v v2)
  moreover have "values_list q ! ?k = STextList [''%deleted%'', ''%dropped%'', ''%removed%'']"
    by (simp add: v v2 deleted_patterns_def)
  moreover have "quoteIdent sc @ ''::text ILIKE ANY($'' @ show_nat (Suc ?k) @ ''::text[])''
      \<in> set (where_frags q)"
    by (simp add: w w2 status_ilike_def next_param_def)
  ultimately show ?thesis unfolding q_def by blast
qed

lemma deleted_request:
  "lifecycle_of (absent_criteria\<lparr> lifecycleState := Some ''deleted'' \<rparr>) = Some ''deleted''"
  by (rule deleted_state_requested) simp

theorem deleted_uses_status_fallback_witness:
  "deletedFlagColumn (resolve_roles (text_table [''domain'', ''status'']) ''domain'') = None \<and>
   deletedAtColumn (resolve_roles (text_table [''domain'', ''status'']) ''domain'') = None \<and>
   statusColumn (resolve_roles (text_table [''domain'', ''status'']) ''domain'') = Some ''status'' \<and>
   lifecycle_of (absent_criteria\<lparr> lifecycleState := Some ''deleted'' \<rparr>) = Some ''deleted'' \<and>
   (\<exists>k < length (values_list (compile_where no_number (text_table [''domain'', ''status''])
                   (resolve_roles (text_table [''domain'', ''status'']) ''domain'')
                   (absent_criteria\<lparr> lifecycleState := Some ''deleted'' \<rparr>))).
      values_list (compile_where no_number (text_table [''domain'', ''status''])
                   (resolve_roles (text_table [''domain'', ''status'']) ''domain'')
                   (absent_criteria\<lparr> lifecycleState := Some ''deleted'' \<rparr>)) ! k =
        STextList [''%deleted%'', ''%dropped%'', ''%removed%''] \<and>
      quoteIdent ''status'' @ ''::text ILIKE ANY($'' @ show_nat (Suc k) @ ''::text[])''
        \<in> set (where_frags (compile_where no_number (text_table [''domain'', ''status''])
                   (resolve_roles (text_table [''domain'', ''status'']) ''domain'')
                   (absent_criteria\<lparr> lifecycleState := Some ''deleted'' \<rparr>))))"
proof -
  let ?r = "resolve_roles (text_table [''domain'', ''status'']) ''domain''"
  have h1: "deletedFlagColumn ?r = None" by (simp add: roles_domain_status)
  have h2: "deletedAtColumn ?r = None" by (simp add: roles_domain_status)
  have h3: "statusColumn ?r = Some ''status''" by (simp add: roles_domain_status)
  note h4 = deleted_request
  from deleted_uses_status_fallback [OF h1 h2 h3 h4, of no_number "text_table [''domain'', ''status'']"]
    h1 h2 h3 h4
  show ?thesis by blast
qed

text \<open>
  C3. On the same metadata, for each of the states \<open>active\<close>, \<open>expiring\<close> and \<open>deleted\<close>
  the lifecycle block first pushes the status fallback for deleted rows, with its three
  patterns, whatever the state. For \<open>deleted\<close> it then pushes the same fragment a second
  time and nothing else. For \<open>active\<close> and \<open>expiring\<close> it pushes \<open>NOT (fragment)\<close> next, so
  no row passes the WHERE list: neither the one of the block nor the one of the whole
  request.
\<close>

theorem status_fragment_pushed_for_every_state:
  assumes "deletedFlagColumn r = None" and "deletedAtColumn r = None"
    and "statusColumn r = Some sc" and "lifecycle_of crit = Some l"
    and "l = ''active'' \<or> l = ''expiring'' \<or> l = ''deleted''"
  shows "(\<exists>ws vs.
            where_frags (add_lifecycle meta r crit st0) =
              where_frags st0 @
              [quoteIdent sc @ ''::text ILIKE ANY('' @ next_param st0 @ ''::text[])''] @ ws \<and>
            values_list (add_lifecycle meta r crit st0) =
              values_list st0 @ [STextList [''%deleted%'', ''%dropped%'', ''%removed%'']] @ vs \<and>
            (l = ''deleted'' \<longrightarrow>
               ws = [quoteIdent sc @ ''::text ILIKE ANY('' @ next_param st0 @ ''::text[])''] \<and> vs = []) \<and>
            (l \<noteq> ''deleted'' \<longrightarrow>
               (\<exists>ws'. ws = (''NOT ('' @ quoteIdent sc @ ''::text ILIKE ANY('' @ next_param st0 @
                              ''::text[])'' @ '')'') # ws'))) \<and>
         (l \<noteq> ''deleted'' \<longrightarrow>
            (\<forall>tv. (\<forall>f. tv (''NOT ('' @ f @ '')'') = sql_not (tv f)) \<longrightarrow>
               \<not> row_passes tv (where_frags (add_lifecycle meta r crit st0)) \<and>
               \<not> row_passes tv (where_frags (compile_where num meta r crit))))"
proof -
  have step: "\<exists>ws vs.
           where_frags (add_lifecycle meta r crit s) =
             where_frags s @ [status_ilike (quoteIdent sc) s] @ ws \<and>
           values_list (add_lifecycle meta r crit s) =
             values_list s @ [STextList deleted_patterns] @ vs \<and>
           (l = ''deleted'' \<longrightarrow> ws = [status_ilike (quoteIdent sc) s] \<and> vs = []) \<and>
           (l \<noteq> ''deleted'' \<longrightarrow>
              (\<exists>ws'. ws = (''NOT ('' @ status_ilike (quoteIdent sc) s @ '')'') # ws'))" for s
    using lifecycle_status_fallback [OF assms(1-4), of meta s] assms(5) by auto
  have unsat_step: "\<not> row_passes tv (where_frags (add_lifecycle meta r crit s))"
    if nd: "l \<noteq> ''deleted''" and tv: "\<forall>f. tv (''NOT ('' @ f @ '')'') = sql_not (tv f)" for tv s
  proof
    assume pass: "row_passes tv (where_frags (add_lifecycle meta r crit s))"
    from step [of s] nd obtain ws' where
      w: "where_frags (add_lifecycle meta r crit s) =
            where_frags s @ [status_ilike (quoteIdent sc) s] @
            (''NOT ('' @ status_ilike (quoteIdent sc) s @ '')'') # ws'"
      by auto
    from pass have "tv (status_ilike (quoteIdent sc) s) = Some True"
      and "tv (''NOT ('' @ status_ilike (quoteIdent sc) s @ '')'') = Some True"
      by (simp_all add: row_passes_def w)
    with tv show False by (simp add: sql_not_def)
  qed
  have unsat_all: "\<not> row_passes tv (where_frags (compile_where num meta r crit))"
    if nd: "l \<noteq> ''deleted''" and tv: "\<forall>f. tv (''NOT ('' @ f @ '')'') = sql_not (tv f)" for tv
  proof
    assume pass: "row_passes tv (where_frags (compile_where num meta r crit))"
    let ?s = "add_tld r crit (add_domainEndsWith r crit
           (add_domainStartsWith r crit \<lparr> where_frags = [], values_list = [] \<rparr>))"
    from compile_extends_lifecycle [of meta r crit num] obtain ws2 where
      "where_frags (compile_where num meta r crit) = where_frags (add_lifecycle meta r crit ?s) @ ws2"
      by (auto simp: extends_def)
    with pass have "row_passes tv (where_frags (add_lifecycle meta r crit ?s))"
      by (simp add: row_passes_def)
    with unsat_step [OF nd tv, of ?s] show False by simp
  qed
  from step [of st0] unsat_step unsat_all show ?thesis
    by (simp add: status_ilike_def deleted_patterns_def)
qed

lemma expiring_only_request:
  "lifecycle_of (absent_criteria\<lparr> lifecycleState := Some ''expiring'' \<rparr>) = Some ''expiring''"
  by code_simp

theorem status_fragment_pushed_for_every_state_witness:
  "deletedFlagColumn (resolve_roles (text_table [''domain'', ''status'']) ''domain'') = None \<and>
   deletedAtColumn (resolve_roles (text_table [''domain'', ''status'']) ''domain'') = None \<and>
   statusColumn (resolve_roles (text_table [''domain'', ''status'']) ''domain'') = Some ''status'' \<and>
   lifecycle_of (absent_criteria\<lparr> lifecycleState := Some ''expiring'' \<rparr>) = Some ''expiring'' \<and>
   ''expiring'' \<noteq> ''deleted'' \<and>
   (\<forall>f. all_unknown (''NOT ('' @ f @ '')'') = sql_not (all_unknown f)) \<and>
   \<not> row_passes all_unknown
       (where_frags (compile_where no_number (text_table [''domain'', ''status''])
          (resolve_roles (text_table [''domain'', ''status'']) ''domain'')
          (absent_criteria\<lparr> lifecycleState := Some ''expiring'' \<rparr>)))"
proof -
  let ?r = "resolve_roles (text_table [''domain'', ''status'']) ''domain''"
  have h1: "deletedFlagColumn ?r = None" by (simp add: roles_domain_status)
  have h2: "deletedAtColumn ?r = None" by (simp add: roles_domain_status)
  have h3: "statusColumn ?r = Some ''status''" by (simp add: roles_domain_status)
  note h4 = expiring_only_request
  have h5: "''expiring'' = ''active'' \<or> ''expiring'' = ''expiring'' \<or> ''expiring'' = ''deleted''"
    by simp
  have h6: "''expiring'' \<noteq> ''deleted''" by simp
  have h7: "\<forall>f. all_unknown (''NOT ('' @ f @ '')'') = sql_not (all_unknown f)"
    by (simp add: sql_not_def all_unknown_def)
  from status_fragment_pushed_for_every_state
         [OF h1 h2 h3 h4 h5, of "text_table [''domain'', ''status'']"
            "\<lparr> where_frags = [], values_list = [] \<rparr>" no_number] h6
  have a: "\<forall>tv. (\<forall>f. tv (''NOT ('' @ f @ '')'') = sql_not (tv f)) \<longrightarrow>
      \<not> row_passes tv (where_frags (add_lifecycle (text_table [''domain'', ''status'']) ?r
          (absent_criteria\<lparr> lifecycleState := Some ''expiring'' \<rparr>)
          \<lparr> where_frags = [], values_list = [] \<rparr>)) \<and>
      \<not> row_passes tv (where_frags (compile_where no_number (text_table [''domain'', ''status'']) ?r
          (absent_criteria\<lparr> lifecycleState := Some ''expiring'' \<rparr>)))"
    by (elim conjE impE) assumption+
  from a [rule_format, of all_unknown] h7
  have "\<not> row_passes all_unknown
       (where_frags (compile_where no_number (text_table [''domain'', ''status'']) ?r
          (absent_criteria\<lparr> lifecycleState := Some ''expiring'' \<rparr>)))"
    by simp
  with h1 h2 h3 h4 h6 h7 show ?thesis by (intro conjI)
qed

subsection \<open>The TLD filter\<close>

lemma roles_domain_tld:
  "resolve_roles (text_table [''domain'', ''tld'']) ''domain'' =
     \<lparr> domainColumn = ''domain'', tldColumn = Some ''tld'', createdColumn = None,
       expiresColumn = None, scheduledDeleteColumn = None,
       deletedAtColumn = None, deletedFlagColumn = None, statusColumn = None \<rparr>"
  by code_simp

lemma tld_exact_match_on_raw_list:
  assumes "tldColumn r = Some tc" and "splitList (tld crit) \<noteq> []"
  shows "add_tld r crit st =
           add (quoteIdent tc @ '' = ANY('' @ next_param st @ ''::text[])'')
             [STextList (splitList (tld crit))] st"
  using assms by (simp add: add_tld_def Let_def)


lemma upper_dot_com: "splitList (Some ''.COM'') = [''.COM'']"
  by code_simp

text \<open>
  C4. The TLD filter has two paths, given by the two lemmas above: with a TLD column the
  list bound to \<open>= ANY\<close> is the split list as the client sent it, and only the fallback
  on the domain column lower-cases each term and strips its leading dot. For the TLD
  \<open>.COM\<close> on a table with a \<open>tld\<close> column the bound list is \<open>[".COM"]\<close>, where the
  fallback path would have built its pattern from \<open>com\<close>.
\<close>

theorem tld_column_list_not_normalized:
  "add_tld (resolve_roles (text_table [''domain'', ''tld'']) ''domain'')
     (absent_criteria\<lparr> tld := Some ''.COM'' \<rparr>) \<lparr> where_frags = [], values_list = [] \<rparr> =
   \<lparr> where_frags = [quoteIdent ''tld'' @ '' = ANY($1::text[])''],
     values_list = [STextList [''.COM'']] \<rparr> \<and>
   compile_where no_number (text_table [''domain'', ''tld''])
     (resolve_roles (text_table [''domain'', ''tld'']) ''domain'')
     (absent_criteria\<lparr> tld := Some ''.COM'' \<rparr>) =
   \<lparr> where_frags = [quoteIdent ''tld'' @ '' = ANY($1::text[])''],
     values_list = [STextList [''.COM'']] \<rparr> \<and>
   map tld_pattern [''.COM''] = [''%.com'']"
  by code_simp

subsection \<open>Missing columns\<close>
























section \<open>Properties of the Wayback count\<close>

lemma cdx_count_rule:
  assumes "res_ok f" and "json_of f = Some (CdxArray rows)" and "rows \<noteq> []"
  shows "cdx_snapshots (Some f) =
           (if length rows - 1 \<ge> 9999 then Some (SnapText ''10000+'')
            else Some (SnapCount (length rows - 1)))"
  using assms by (simp add: cdx_snapshots_def Let_def)

text \<open>
  C10. The count is the number of rows minus 1, as the lemma above says, but the text
  \<open>10000+\<close> is shown from 9999 snapshots on: for an answer of 10000 rows, the header and
  9999 snapshots, the result is \<open>10000+\<close> and not the number 9999. With 9998 snapshots
  the number is shown.
\<close>

theorem cdx_9999_snapshots_shown_as_capped:
  "cdx_snapshots
     (Some \<lparr> res_status = 200, text_of = ''[...]'',
             json_of = Some (CdxArray ([''timestamp''] # replicate 9999 [''20200101000000''])) \<rparr>) =
   Some (SnapText ''10000+'') \<and>
   cdx_snapshots
     (Some \<lparr> res_status = 200, text_of = ''[...]'',
             json_of = Some (CdxArray ([''timestamp''] # replicate 9998 [''20200101000000''])) \<rparr>) =
   Some (SnapCount 9998)"
  by (simp add: cdx_snapshots_def res_ok_def)

section \<open>Properties of the retrying fetch\<close>

lemma fetch_loop_done:
  "retries < attempt \<Longrightarrow> snd (fetch_loop ep retries net attempt lastErr) = []"
  by (subst fetch_loop.simps) (simp split: option.splits)

lemma fetch_loop_last:
  "snd (fetch_loop ep retries net retries lastErr) = [Fetch ep]"
  by (subst fetch_loop.simps) (simp add: split_beta fetch_loop_done split: outcome.splits)

lemma fetch_loop_retry:
  assumes "attempt < retries"
  shows "snd (fetch_loop ep retries net attempt lastErr) =
           Fetch ep #
           (if retryable (net attempt)
            then Sleep (250 * 2 ^ attempt) #
                 snd (fetch_loop ep retries net (attempt + 1)
                        (Some (case net attempt of
                                 Rejected err \<Rightarrow> err
                               | Responded st txt js \<Rightarrow>
                                   JsError ErrorClass (take 500 (''HTTP '' @ show_nat st @ '' '' @ txt)))))
            else [])"
  using assms
  by (subst fetch_loop.simps) (simp add: split_beta split: outcome.splits)

lemma fetch_loop_trace:
  "retries - attempt = left \<Longrightarrow> attempt \<le> retries \<Longrightarrow>
   snd (fetch_loop ep retries net attempt lastErr) = spec_trace ep left attempt net"
proof (induction left arbitrary: attempt lastErr)
  case 0
  then have "attempt = retries" by simp
  then show ?case by (simp add: fetch_loop_last)
next
  case (Suc left)
  then have lt: "attempt < retries" and rest: "retries - Suc attempt = left"
    and le: "Suc attempt \<le> retries"
    by simp_all
  show ?case
    by (simp add: fetch_loop_retry [OF lt] Suc.IH [OF rest le])
qed

lemma fetchJsonWithRetry_trace:
  "snd (fetchJsonWithRetry ep retries net) = spec_trace ep retries 0 net"
  by (simp add: fetchJsonWithRetry_def fetch_loop_trace)

lemma checkWayback_trace:
  "snd (checkWayback avail cdx domain) =
     Fetch AvailabilityCall #
     (if retryable (avail 0) then [Sleep 250, Fetch AvailabilityCall] else []) @ [Fetch CdxCall]"
proof -
  have a: "snd (fetchJsonWithRetry AvailabilityCall 1 avail) =
      Fetch AvailabilityCall # (if retryable (avail 0) then [Sleep 250, Fetch AvailabilityCall] else [])"
    by (simp add: fetchJsonWithRetry_trace)
  have c: "snd (fetchJsonWithRetry CdxCall 0 cdx) = [Fetch CdxCall]"
    by (simp add: fetchJsonWithRetry_trace)
  have "snd (checkWayback avail cdx domain) =
      snd (fetchJsonWithRetry AvailabilityCall 1 avail) @ snd (fetchJsonWithRetry CdxCall 0 cdx)"
    by (simp add: checkWayback_def Let_def split_beta split: ts_member.splits)
  with a c show ?thesis by simp
qed

lemma checkSpamhaus_trace:
  assumes "getSpamhausIntelToken e now1 lnet now2 cur = (Inr (Some t, src), cur1, evs)" and "t \<noteq> []"
  shows "snd (snd (checkSpamhaus e now1 lnet now2 lookup cur)) =
           evs @ Fetch LookupCall # (if retryable (lookup 0) then [Sleep 250, Fetch LookupCall] else [])"
proof -
  have l: "snd (fetchJsonWithRetry LookupCall 1 lookup) =
      Fetch LookupCall # (if retryable (lookup 0) then [Sleep 250, Fetch LookupCall] else [])"
    by (simp add: fetchJsonWithRetry_trace)
  obtain res evs2 where f: "fetchJsonWithRetry LookupCall 1 lookup = (res, evs2)"
    by (cases "fetchJsonWithRetry LookupCall 1 lookup") 
  have "snd (snd (checkSpamhaus e now1 lnet now2 lookup cur)) = evs @ evs2"
    using assms f by (cases res) (simp_all add: checkSpamhaus_def or_else_def)
  with l f show ?thesis by simp
qed

text \<open>
  C8, in the form that holds of the code. \<open>fetchJsonWithRetry\<close> follows the retry policy
  for the number of retries it is given: a sleep of \<open>250 * 2 ^ attempt\<close> ms before each
  retry, a retry exactly after a transport failure, a status of 500 or more or status 429
  while retries remain; with its default of 2 retries that is up to three attempts. No
  remote check uses the default: the Spamhaus lookup and the Wayback availability call are
  given one retry (after 250 ms), the Wayback CDX count call none.
\<close>

theorem retry_budget_per_call_site:
  "snd (fetchJsonWithRetry ep retries net) = spec_trace ep retries 0 net \<and>
   snd (fetchJsonWithRetry ep 2 net) =
     Fetch ep #
     (if retryable (net 0)
      then Sleep 250 # Fetch ep # (if retryable (net 1) then [Sleep 500, Fetch ep] else [])
      else []) \<and>
   snd (checkWayback avail cdx domain) =
     Fetch AvailabilityCall #
     (if retryable (avail 0) then [Sleep 250, Fetch AvailabilityCall] else []) @ [Fetch CdxCall] \<and>
   (\<forall>t src cur1 evs.
      getSpamhausIntelToken e now1 lnet now2 cur = (Inr (Some t, src), cur1, evs) \<and> t \<noteq> [] \<longrightarrow>
      snd (snd (checkSpamhaus e now1 lnet now2 lookup cur)) =
        evs @ Fetch LookupCall # (if retryable (lookup 0) then [Sleep 250, Fetch LookupCall] else []))"
proof -
  have two: "snd (fetchJsonWithRetry ep 2 net) =
     Fetch ep #
     (if retryable (net 0)
      then Sleep 250 # Fetch ep # (if retryable (net 1) then [Sleep 500, Fetch ep] else [])
      else [])"
    by (simp add: fetchJsonWithRetry_trace numeral_2_eq_2)
  from two checkSpamhaus_trace [of e now1 lnet now2 cur _ _ _ _ lookup] show ?thesis
    by (simp add: fetchJsonWithRetry_trace checkWayback_trace)
qed

lemma token_from_key:
  "getSpamhausIntelToken env_with_key now1 lnet now2 cur = (Inr (Some ''key'', Api_key), cur, [])"
  by (simp add: getSpamhausIntelToken_def direct_key_def or_else_def env_with_key_def)

theorem retry_budget_per_call_site_witness:
  "getSpamhausIntelToken env_with_key 0 always_503 0 None = (Inr (Some ''key'', Api_key), None, []) \<and>
   ''key'' \<noteq> [] \<and>
   snd (snd (checkSpamhaus env_with_key 0 always_503 0 always_503 None)) =
     [Fetch LookupCall, Sleep 250, Fetch LookupCall]"
proof -
  have h1: "getSpamhausIntelToken env_with_key 0 always_503 0 None = (Inr (Some ''key'', Api_key), None, [])"
    by (rule token_from_key)
  have h2: "''key'' \<noteq> []" by simp
  from retry_budget_per_call_site [of LookupCall 1 always_503 always_503 always_503 "[]"
      env_with_key 0 always_503 0 None always_503] h1 h2
  have "snd (snd (checkSpamhaus env_with_key 0 always_503 0 always_503 None)) =
      [] @ Fetch LookupCall # (if retryable (always_503 0 :: string outcome) then [Sleep 250, Fetch LookupCall] else [])"
    by blast
  with h1 h2 show ?thesis by (simp add: always_503_def)
qed

text \<open>
  C8, as the specification states it, gives each remote check up to two retries,
  triggered by every 5xx answer. When every answer is 503, the availability call is
  fetched twice, not three times, and the CDX count call once: its 503 triggers no retry.
\<close>

theorem two_retries_counterexample:
  "retryable (always_503 0 :: cdx_json outcome) \<and>
   retryable (always_503 1 :: avail_json outcome) \<and>
   snd (checkWayback always_503 always_503 ''example.com'') =
     [Fetch AvailabilityCall, Sleep 250, Fetch AvailabilityCall, Fetch CdxCall]"
  by (simp add: checkWayback_trace always_503_def)

section \<open>Properties of the credential manager\<close>

lemma token_direct:
  "direct_key e = Some k \<Longrightarrow>
   getSpamhausIntelToken e now1 lnet now2 cur = (Inr (Some k, Api_key), cur, [])"
  by (simp add: getSpamhausIntelToken_def)

lemma token_by_login:
  assumes "direct_key e = None"
    and "SPAMHAUS_INTEL_USERNAME e = Some u" and "u \<noteq> []"
    and "SPAMHAUS_INTEL_PASSWORD e = Some p" and "p \<noteq> []"
  shows "getSpamhausIntelToken e now1 lnet now2 cur =
           (case cur of
              Some a \<Rightarrow>
                if token a \<noteq> [] \<and> truthy_num (expiresAtMs a) \<and> before_margin now1 (expiresAtMs a)
                then (Inr (Some (token a), Login_cached), cur, [])
                else login_call lnet now2 cur
            | None \<Rightarrow> login_call lnet now2 cur)"
  using assms by (simp add: getSpamhausIntelToken_def or_else_def)

lemma login_call_source:
  "fst (login_call lnet now2 cur) \<noteq> Inr (tok, Login_cached)"
  by (auto simp: login_call_def Let_def split: prod.splits sum.splits option.splits if_splits)

lemma login_call_events:
  "snd (snd (login_call lnet now2 cur)) =
     Fetch LoginCall # (if retryable (lnet 0) then [Sleep 250, Fetch LoginCall] else [])"
proof -
  have l: "snd (fetchJsonWithRetry LoginCall 1 lnet) =
      Fetch LoginCall # (if retryable (lnet 0) then [Sleep 250, Fetch LoginCall] else [])"
    by (simp add: fetchJsonWithRetry_trace)
  obtain res evs where f: "fetchJsonWithRetry LoginCall 1 lnet = (res, evs)"
    by (cases "fetchJsonWithRetry LoginCall 1 lnet")
  have "snd (snd (login_call lnet now2 cur)) = evs"
    using f by (cases res) (simp_all add: login_call_def Let_def split: option.splits)
  with l f show ?thesis by simp
qed

lemma login_call_stores:
  assumes "fetchJsonWithRetry LoginCall 1 lnet = (Inr f, evs)" and "res_ok f"
    and "json_of f = Some j" and "login_token j = Some t" and "t \<noteq> []"
  shows "login_call lnet now2 cur =
           (Inr (Some t, Login),
            Some \<lparr> token = t,
                   expiresAtMs = (if truthy_num (login_expires j) then times_1000 (login_expires j)
                                  else Fin (rat_of_int (now2 + 23 * 60 * 60 * 1000))) \<rparr>,
            evs)"
  using assms by (simp add: login_call_def Let_def or_else_def)

lemma auth_failure_invalidates:
  assumes "getSpamhausIntelToken e now1 lnet now2 cur = (Inr (Some t, src), cur1, evs)" and "t \<noteq> []"
    and "fetchJsonWithRetry LookupCall 1 lookup = (Inr f, evs2)"
    and "res_status f = 401 \<or> res_status f = 403"
  shows "checkSpamhaus e now1 lnet now2 lookup cur =
           (Inr (SpamError (''Auth failed (HTTP '' @ show_nat (res_status f) @ '')'')), None, evs @ evs2)"
  using assms by (auto simp: checkSpamhaus_def or_else_def)

text \<open>
  C7. The credential manager returns a directly configured API key when there is one,
  without any call. Otherwise, with a user name and a password configured: a cached token
  is returned exactly while the clock is more than 60 seconds before its expiry; without
  such a token the manager logs in, and a successful login stores the token with its
  declared expiry (\<open>expires\<close>, in seconds, times 1000), or with the clock plus 23 hours when
  none is declared. When the lookup is answered with 401 or 403, \<open>checkSpamhaus\<close> leaves
  no cached token, and the next call of the manager logs in again.
\<close>

theorem credential_manager:
  "(direct_key e = Some k \<longrightarrow>
      getSpamhausIntelToken e now1 lnet now2 cur = (Inr (Some k, Api_key), cur, [])) \<and>
   (direct_key e = None \<and> SPAMHAUS_INTEL_USERNAME e = Some u \<and> u \<noteq> [] \<and>
    SPAMHAUS_INTEL_PASSWORD e = Some p \<and> p \<noteq> [] \<longrightarrow>
      (cur = Some a \<and> token a \<noteq> [] \<and> truthy_num (expiresAtMs a) \<and>
       before_margin now1 (expiresAtMs a) \<longrightarrow>
         getSpamhausIntelToken e now1 lnet now2 cur = (Inr (Some (token a), Login_cached), cur, [])) \<and>
      (cur = Some a \<and> token a \<noteq> [] \<and> expiresAtMs a = Fin q \<longrightarrow>
         (getSpamhausIntelToken e now1 lnet now2 cur = (Inr (Some (token a), Login_cached), cur, [])) =
         (q \<noteq> 0 \<and> rat_of_int now1 < q - 60000)) \<and>
      (cur = None \<or>
       (cur = Some a \<and> \<not> (truthy_num (expiresAtMs a) \<and> before_margin now1 (expiresAtMs a))) \<longrightarrow>
         getSpamhausIntelToken e now1 lnet now2 cur = login_call lnet now2 cur \<and>
         snd (snd (getSpamhausIntelToken e now1 lnet now2 cur)) =
           Fetch LoginCall # (if retryable (lnet 0) then [Sleep 250, Fetch LoginCall] else [])) \<and>
      (fetchJsonWithRetry LoginCall 1 lnet = (Inr f, evs) \<and> res_ok f \<and> json_of f = Some j \<and>
       login_token j = Some t \<and> t \<noteq> [] \<longrightarrow>
         login_call lnet now2 cur =
           (Inr (Some t, Login),
            Some \<lparr> token = t,
                   expiresAtMs = (if truthy_num (login_expires j) then times_1000 (login_expires j)
                                  else Fin (rat_of_int (now2 + 23 * 60 * 60 * 1000))) \<rparr>,
            evs)) \<and>
      (getSpamhausIntelToken e now1 lnet now2 cur = (Inr (Some t', src), cur1, evs1) \<and> t' \<noteq> [] \<and>
       fetchJsonWithRetry LookupCall 1 lookup = (Inr f2, evs2) \<and>
       (res_status f2 = 401 \<or> res_status f2 = 403) \<longrightarrow>
         fst (snd (checkSpamhaus e now1 lnet now2 lookup cur)) = None \<and>
         getSpamhausIntelToken e now1' lnet' now2'
           (fst (snd (checkSpamhaus e now1 lnet now2 lookup cur))) = login_call lnet' now2' None))"
proof -
  have direct: "direct_key e = Some k \<longrightarrow>
      getSpamhausIntelToken e now1 lnet now2 cur = (Inr (Some k, Api_key), cur, [])"
    by (simp add: token_direct)
  have login: "(cur = Some a \<and> token a \<noteq> [] \<and> truthy_num (expiresAtMs a) \<and>
       before_margin now1 (expiresAtMs a) \<longrightarrow>
         getSpamhausIntelToken e now1 lnet now2 cur = (Inr (Some (token a), Login_cached), cur, [])) \<and>
      (cur = Some a \<and> token a \<noteq> [] \<and> expiresAtMs a = Fin q \<longrightarrow>
         (getSpamhausIntelToken e now1 lnet now2 cur = (Inr (Some (token a), Login_cached), cur, [])) =
         (q \<noteq> 0 \<and> rat_of_int now1 < q - 60000)) \<and>
      (cur = None \<or>
       (cur = Some a \<and> \<not> (truthy_num (expiresAtMs a) \<and> before_margin now1 (expiresAtMs a))) \<longrightarrow>
         getSpamhausIntelToken e now1 lnet now2 cur = login_call lnet now2 cur \<and>
         snd (snd (getSpamhausIntelToken e now1 lnet now2 cur)) =
           Fetch LoginCall # (if retryable (lnet 0) then [Sleep 250, Fetch LoginCall] else [])) \<and>
      (fetchJsonWithRetry LoginCall 1 lnet = (Inr f, evs) \<and> res_ok f \<and> json_of f = Some j \<and>
       login_token j = Some t \<and> t \<noteq> [] \<longrightarrow>
         login_call lnet now2 cur =
           (Inr (Some t, Login),
            Some \<lparr> token = t,
                   expiresAtMs = (if truthy_num (login_expires j) then times_1000 (login_expires j)
                                  else Fin (rat_of_int (now2 + 23 * 60 * 60 * 1000))) \<rparr>,
            evs)) \<and>
      (getSpamhausIntelToken e now1 lnet now2 cur = (Inr (Some t', src), cur1, evs1) \<and> t' \<noteq> [] \<and>
       fetchJsonWithRetry LookupCall 1 lookup = (Inr f2, evs2) \<and>
       (res_status f2 = 401 \<or> res_status f2 = 403) \<longrightarrow>
         fst (snd (checkSpamhaus e now1 lnet now2 lookup cur)) = None \<and>
         getSpamhausIntelToken e now1' lnet' now2'
           (fst (snd (checkSpamhaus e now1 lnet now2 lookup cur))) = login_call lnet' now2' None)"
    if D: "direct_key e = None" "SPAMHAUS_INTEL_USERNAME e = Some u" "u \<noteq> []"
      "SPAMHAUS_INTEL_PASSWORD e = Some p" "p \<noteq> []"
  proof -
    note G = token_by_login [OF D]
    have cached: "cur = Some a \<and> token a \<noteq> [] \<and> truthy_num (expiresAtMs a) \<and>
       before_margin now1 (expiresAtMs a) \<longrightarrow>
         getSpamhausIntelToken e now1 lnet now2 cur = (Inr (Some (token a), Login_cached), cur, [])"
      by (simp add: G)
    have margin: "cur = Some a \<and> token a \<noteq> [] \<and> expiresAtMs a = Fin q \<longrightarrow>
         (getSpamhausIntelToken e now1 lnet now2 cur = (Inr (Some (token a), Login_cached), cur, [])) =
         (q \<noteq> 0 \<and> rat_of_int now1 < q - 60000)"
    proof (intro impI, elim conjE)
      assume c: "cur = Some a" "token a \<noteq> []" "expiresAtMs a = Fin q"
      show "(getSpamhausIntelToken e now1 lnet now2 cur = (Inr (Some (token a), Login_cached), cur, [])) =
         (q \<noteq> 0 \<and> rat_of_int now1 < q - 60000)"
      proof (cases "q \<noteq> 0 \<and> rat_of_int now1 < q - 60000")
        case True
        with c show ?thesis by (simp add: G)
      next
        case False
        with c have "getSpamhausIntelToken e now1 lnet now2 cur = login_call lnet now2 cur"
          by (auto simp: G)
        with login_call_source [of lnet now2 cur "Some (token a)"] False show ?thesis
          by auto
      qed
    qed
    have fresh: "cur = None \<or>
       (cur = Some a \<and> \<not> (truthy_num (expiresAtMs a) \<and> before_margin now1 (expiresAtMs a))) \<longrightarrow>
         getSpamhausIntelToken e now1 lnet now2 cur = login_call lnet now2 cur \<and>
         snd (snd (getSpamhausIntelToken e now1 lnet now2 cur)) =
           Fetch LoginCall # (if retryable (lnet 0) then [Sleep 250, Fetch LoginCall] else [])"
      using login_call_events [of lnet now2 cur] by (auto simp: G)
    have stores: "fetchJsonWithRetry LoginCall 1 lnet = (Inr f, evs) \<and> res_ok f \<and> json_of f = Some j \<and>
       login_token j = Some t \<and> t \<noteq> [] \<longrightarrow>
         login_call lnet now2 cur =
           (Inr (Some t, Login),
            Some \<lparr> token = t,
                   expiresAtMs = (if truthy_num (login_expires j) then times_1000 (login_expires j)
                                  else Fin (rat_of_int (now2 + 23 * 60 * 60 * 1000))) \<rparr>,
            evs)"
      using login_call_stores [of lnet f evs j t now2 cur] by blast
    have invalid: "getSpamhausIntelToken e now1 lnet now2 cur = (Inr (Some t', src), cur1, evs1) \<and> t' \<noteq> [] \<and>
       fetchJsonWithRetry LookupCall 1 lookup = (Inr f2, evs2) \<and>
       (res_status f2 = 401 \<or> res_status f2 = 403) \<longrightarrow>
         fst (snd (checkSpamhaus e now1 lnet now2 lookup cur)) = None \<and>
         getSpamhausIntelToken e now1' lnet' now2'
           (fst (snd (checkSpamhaus e now1 lnet now2 lookup cur))) = login_call lnet' now2' None"
    proof (intro impI, elim conjE)
      assume a: "getSpamhausIntelToken e now1 lnet now2 cur = (Inr (Some t', src), cur1, evs1)"
        "t' \<noteq> []" "fetchJsonWithRetry LookupCall 1 lookup = (Inr f2, evs2)"
        "res_status f2 = 401 \<or> res_status f2 = 403"
      have none: "fst (snd (checkSpamhaus e now1 lnet now2 lookup cur)) = None"
        by (simp add: auth_failure_invalidates [OF a])
      moreover have "getSpamhausIntelToken e now1' lnet' now2' None = login_call lnet' now2' None"
        by (simp add: token_by_login [OF D])
      ultimately show "fst (snd (checkSpamhaus e now1 lnet now2 lookup cur)) = None \<and>
         getSpamhausIntelToken e now1' lnet' now2'
           (fst (snd (checkSpamhaus e now1 lnet now2 lookup cur))) = login_call lnet' now2' None"
        by simp
    qed
    from cached margin fresh stores invalid show ?thesis by (intro conjI)
  qed
  show ?thesis
    by (rule conjI [OF direct]) (intro impI, elim conjE, rule login; assumption)
qed

lemma fetch_login_answer:
  "fetchJsonWithRetry LoginCall retries (login_answer t x) =
     (Inr \<lparr> res_status = 200, text_of = ''{...}'',
            json_of = Some \<lparr> login_token = Some t, login_expires = x \<rparr> \<rparr>, [Fetch LoginCall])"
  unfolding fetchJsonWithRetry_def by (subst fetch_loop.simps) (simp add: login_answer_def)

lemma fetch_always_status:
  "st < 429 \<Longrightarrow>
   fetchJsonWithRetry ep retries (always_status st) =
     (Inr \<lparr> res_status = st, text_of = [], json_of = None \<rparr>, [Fetch ep])"
  unfolding fetchJsonWithRetry_def by (subst fetch_loop.simps) (simp add: always_status_def)

lemma login_environment:
  "direct_key env_with_login = None \<and> SPAMHAUS_INTEL_USERNAME env_with_login = Some ''user'' \<and>
   ''user'' \<noteq> [] \<and> SPAMHAUS_INTEL_PASSWORD env_with_login = Some ''secret'' \<and> ''secret'' \<noteq> []"
  by (simp add: env_with_login_def direct_key_def or_else_def)

lemma key_environment: "direct_key env_with_key = Some ''key''"
  by (simp add: env_with_key_def direct_key_def or_else_def)

theorem credential_manager_witness:
  "direct_key env_with_key = Some ''key'' \<and>
   getSpamhausIntelToken env_with_key 1000 (login_answer ''tok'' (Fin 2000000000)) 2000 None =
     (Inr (Some ''key'', Api_key), None, []) \<and>
   direct_key env_with_login = None \<and> SPAMHAUS_INTEL_USERNAME env_with_login = Some ''user'' \<and>
   ''user'' \<noteq> [] \<and> SPAMHAUS_INTEL_PASSWORD env_with_login = Some ''secret'' \<and> ''secret'' \<noteq> [] \<and>
   getSpamhausIntelToken env_with_login 1000 (login_answer ''tok'' (Fin 2000000000)) 2000 None =
     (Inr (Some ''tok'', Login), Some \<lparr> token = ''tok'', expiresAtMs = Fin 2000000000000 \<rparr>,
      [Fetch LoginCall]) \<and>
   getSpamhausIntelToken env_with_login 3000 (login_answer ''tok'' (Fin 0)) 4000 None =
     (Inr (Some ''tok'', Login), Some \<lparr> token = ''tok'', expiresAtMs = Fin 82804000 \<rparr>,
      [Fetch LoginCall]) \<and>
   getSpamhausIntelToken env_with_login 1999999939999 (login_answer ''new'' (Fin 0)) 0
       (Some \<lparr> token = ''tok'', expiresAtMs = Fin 2000000000000 \<rparr>) =
     (Inr (Some ''tok'', Login_cached), Some \<lparr> token = ''tok'', expiresAtMs = Fin 2000000000000 \<rparr>, []) \<and>
   getSpamhausIntelToken env_with_login 1999999940000 (login_answer ''new'' (Fin 0)) 0
       (Some \<lparr> token = ''tok'', expiresAtMs = Fin 2000000000000 \<rparr>) \<noteq>
     (Inr (Some ''tok'', Login_cached), Some \<lparr> token = ''tok'', expiresAtMs = Fin 2000000000000 \<rparr>, []) \<and>
   fst (snd (checkSpamhaus env_with_login 1999999939999 (login_answer ''new'' (Fin 0)) 0
               (always_status 403) (Some \<lparr> token = ''tok'', expiresAtMs = Fin 2000000000000 \<rparr>))) = None"
proof -
  let ?a = "\<lparr> token = ''tok'', expiresAtMs = Fin 2000000000000 \<rparr>"
  note D = login_environment
  note T = credential_manager
  have key: "getSpamhausIntelToken env_with_key 1000 (login_answer ''tok'' (Fin 2000000000)) 2000 None =
     (Inr (Some ''key'', Api_key), None, [])"
    by (rule T [THEN conjunct1, THEN mp, OF key_environment])
  have fresh: "getSpamhausIntelToken env_with_login n1 l n2 None = login_call l n2 None" for n1 l n2
    using T [where e = env_with_login and u = "''user''" and p = "''secret''" and cur = None and ?now1.0 = n1 and lnet = l and ?now2.0 = n2,
             THEN conjunct2, THEN mp, OF D, THEN conjunct2, THEN conjunct2, THEN conjunct1]
    by simp
  have stores: "login_call (login_answer ''tok'' x) n2 None =
      (Inr (Some ''tok'', Login),
       Some \<lparr> token = ''tok'',
              expiresAtMs = (if truthy_num x then times_1000 x
                             else Fin (rat_of_int (n2 + 23 * 60 * 60 * 1000))) \<rparr>,
       [Fetch LoginCall])" for x n2
    using T [where e = env_with_login and u = "''user''" and p = "''secret''" and cur = None and lnet = "login_answer ''tok'' x" and ?now2.0 = n2 and t = "''tok''"
               and j = "\<lparr> login_token = Some ''tok'', login_expires = x \<rparr>"
               and evs = "[Fetch LoginCall]"
               and f = "\<lparr> res_status = 200, text_of = ''{...}'',
                          json_of = Some \<lparr> login_token = Some ''tok'', login_expires = x \<rparr> \<rparr>",
             THEN conjunct2, THEN mp, OF D, THEN conjunct2, THEN conjunct2, THEN conjunct2, THEN conjunct1]
    by (simp add: fetch_login_answer res_ok_def)
  have declared: "getSpamhausIntelToken env_with_login 1000 (login_answer ''tok'' (Fin 2000000000)) 2000 None =
     (Inr (Some ''tok'', Login), Some ?a, [Fetch LoginCall])"
    by (simp add: fresh stores)
  have dflt: "getSpamhausIntelToken env_with_login 3000 (login_answer ''tok'' (Fin 0)) 4000 None =
     (Inr (Some ''tok'', Login), Some \<lparr> token = ''tok'', expiresAtMs = Fin 82804000 \<rparr>,
      [Fetch LoginCall])"
    by (simp add: fresh stores)
  have margin: "(getSpamhausIntelToken env_with_login n1 l n2 (Some ?a) =
        (Inr (Some ''tok'', Login_cached), Some ?a, [])) =
      (rat_of_int n1 < 2000000000000 - 60000)" for n1 l n2
    using T [where e = env_with_login and u = "''user''" and p = "''secret''" and cur = "Some ?a" and a = ?a and q = 2000000000000 and ?now1.0 = n1 and lnet = l
               and ?now2.0 = n2, THEN conjunct2, THEN mp, OF D, THEN conjunct2, THEN conjunct1]
    by simp
  have valid: "getSpamhausIntelToken env_with_login 1999999939999 (login_answer ''new'' (Fin 0)) 0 (Some ?a) =
     (Inr (Some ''tok'', Login_cached), Some ?a, [])"
    by (simp add: margin)
  have stale: "getSpamhausIntelToken env_with_login 1999999940000 (login_answer ''new'' (Fin 0)) 0 (Some ?a) \<noteq>
     (Inr (Some ''tok'', Login_cached), Some ?a, [])"
    by (simp add: margin)
  have invalid: "fst (snd (checkSpamhaus env_with_login 1999999939999 (login_answer ''new'' (Fin 0)) 0
               (always_status 403) (Some ?a))) = None"
  proof -
    have look: "fetchJsonWithRetry LookupCall 1 (always_status 403) =
        (Inr \<lparr> res_status = 403, text_of = [], json_of = None \<rparr>, [Fetch LookupCall])"
      by (simp add: fetch_always_status)
    have pre: "getSpamhausIntelToken env_with_login 1999999939999 (login_answer ''new'' (Fin 0)) 0 (Some ?a) =
          (Inr (Some ''tok'', Login_cached), Some ?a, []) \<and> ''tok'' \<noteq> [] \<and>
        fetchJsonWithRetry LookupCall 1 (always_status 403) =
          (Inr \<lparr> res_status = 403, text_of = [], json_of = None \<rparr>, [Fetch LookupCall]) \<and>
        (res_status \<lparr> res_status = 403, text_of = [], json_of = (None :: string option) \<rparr> = 401 \<or>
         res_status \<lparr> res_status = 403, text_of = [], json_of = (None :: string option) \<rparr> = 403)"
      using valid look by simp
    from T [where e = env_with_login and u = "''user''" and p = "''secret''" and cur = "Some ?a"
               and ?now1.0 = 1999999939999 and lnet = "login_answer ''new'' (Fin 0)"
               and ?now2.0 = 0 and lookup = "always_status 403" and t' = "''tok''" and src = Login_cached
               and ?cur1.0 = "Some ?a" and ?evs1.0 = "[]"
               and ?f2.0 = "\<lparr> res_status = 403, text_of = [], json_of = None \<rparr>"
               and ?evs2.0 = "[Fetch LookupCall]",
             THEN conjunct2, THEN mp, OF D, THEN conjunct2, THEN conjunct2, THEN conjunct2,
             THEN conjunct2, THEN mp, OF pre]
    show ?thesis by (rule conjunct1)
  qed
  from key_environment key D declared dflt valid stale invalid show ?thesis
    by (intro conjI) simp_all
qed

section \<open>Properties of the verification cache\<close>

lemma class_name_nonempty: "class_name cls \<noteq> []"
  by (cases cls) simp_all

lemma error_text_nonempty: "error_text err \<noteq> []"
  by (cases err) (simp add: class_name_nonempty)

lemma spamhaus_error_nonempty:
  assumes "checkSpamhaus e now1 lnet now2 lookup cur = (Inr spam, cur1, evs)"
  shows "spamhaus_error spam \<noteq> Some []"
proof -
  obtain tk where tk: "getSpamhausIntelToken e now1 lnet now2 cur = tk" by simp
  obtain res evs2 where f: "fetchJsonWithRetry LookupCall 1 lookup = (res, evs2)"
    by (cases "fetchJsonWithRetry LookupCall 1 lookup")
  from assms f show ?thesis
    by (auto simp: checkSpamhaus_def error_text_nonempty
        split: prod.splits sum.splits option.splits if_splits)
qed

lemma wayback_error_nonempty:
  "wayback_error (fst (checkWayback avail cdx domain)) \<noteq> Some []"
  by (simp add: checkWayback_def Let_def split_beta split: ts_member.splits)

lemma check_cached:
  assumes "normalizeDomain input = Some dn" and "checkCache s dn = Some c"
    and "now_lookup w - ts c < CHECK_TTL_MS"
  shows "check e w input s = (CheckResult dn True (cached_value c), s, [])"
  using assms by (simp add: check_def)

lemma check_fresh:
  assumes "check e w input s = (CheckResult dn False v, s', evs)"
  shows "normalizeDomain input = Some dn \<and>
         spamhaus_error (spamhaus v) \<noteq> Some [] \<and> wayback_error (wayback v) \<noteq> Some [] \<and>
         checkCache s' =
           (if hasError v then checkCache s
            else (checkCache s)(dn \<mapsto> \<lparr> ts = now_store w, cached_value = v \<rparr>))"
proof -
  from assms obtain d0 where d0: "normalizeDomain input = Some d0"
    by (auto simp: check_def split: option.splits)
  obtain sp auth1 evs1 where sp:
    "checkSpamhaus e (now_token w) (login_net w) (now_login w) (lookup_net w) (spamhausIntelAuth s) =
       (sp, auth1, evs1)"
    by (cases "checkSpamhaus e (now_token w) (login_net w) (now_login w) (lookup_net w) (spamhausIntelAuth s)")
  obtain wb evs2 where wb: "checkWayback (avail_net w) (cdx_net w) d0 = (wb, evs2)"
    by (cases "checkWayback (avail_net w) (cdx_net w) d0")
  from wayback_error_nonempty [of "avail_net w" "cdx_net w" d0] wb
  have wbe: "wayback_error wb \<noteq> Some []" by simp
  from assms d0 sp wb obtain spam where spam: "sp = Inr spam"
    by (cases sp) (auto simp: check_def Let_def split: option.splits if_splits)
  from spamhaus_error_nonempty sp spam have spe: "spamhaus_error spam \<noteq> Some []" by blast
  from assms d0 sp wb spam wbe spe show ?thesis
    by (auto simp: check_def Let_def split: option.splits if_splits)
qed

lemma hasError_iff:
  assumes "spamhaus_error (spamhaus v) \<noteq> Some []" and "wayback_error (wayback v) \<noteq> Some []"
  shows "hasError v = (spamhaus_error (spamhaus v) \<noteq> None \<or> wayback_error (wayback v) \<noteq> None)"
  using assms by (auto simp: hasError_def truthy_str_def split: option.splits)

lemma check_cache_effect:
  assumes "check e w input s = (resp, s', evs)"
  shows "checkCache s' = checkCache s \<or>
         (\<exists>dn v. spamhaus_error (spamhaus v) = None \<and> wayback_error (wayback v) = None \<and>
            checkCache s' = (checkCache s)(dn \<mapsto> \<lparr> ts = now_store w, cached_value = v \<rparr>))"
proof (cases "\<exists>dn v. resp = CheckResult dn False v")
  case True
  then obtain dn v where r: "resp = CheckResult dn False v" by blast
  from check_fresh [OF assms [unfolded r]] hasError_iff [of v] show ?thesis
    by (cases "hasError v") auto
next
  case False
  with assms have "checkCache s' = checkCache s"
    by (auto simp: check_def Let_def split: option.splits if_splits prod.splits sum.splits)
  then show ?thesis by simp
qed

lemma reachable_cache_error_free:
  "reachable e s \<Longrightarrow> checkCache s d = Some c \<Longrightarrow>
   spamhaus_error (spamhaus (cached_value c)) = None \<and> wayback_error (wayback (cached_value c)) = None"
proof (induction arbitrary: d c rule: reachable.induct)
  case start
  then show ?case by simp
next
  case (request s w input resp s' evs)
  from check_cache_effect [OF request.hyps(2)] show ?case
  proof
    assume "checkCache s' = checkCache s"
    with request show ?thesis by simp
  next
    assume "\<exists>dn v. spamhaus_error (spamhaus v) = None \<and> wayback_error (wayback v) = None \<and>
            checkCache s' = (checkCache s)(dn \<mapsto> \<lparr> ts = now_store w, cached_value = v \<rparr>)"
    then obtain dn v where v: "spamhaus_error (spamhaus v) = None" "wayback_error (wayback v) = None"
      and upd: "checkCache s' = (checkCache s)(dn \<mapsto> \<lparr> ts = now_store w, cached_value = v \<rparr>)"
      by blast
    show ?thesis
    proof (cases "d = dn")
      case True
      with upd request.prems v show ?thesis by auto
    next
      case False
      with upd request.prems request.IH [of d c] show ?thesis by simp
    qed
  qed
qed

text \<open>
  C6. A fresh result with an error on the Spamhaus or on the Wayback branch leaves the
  cache as it was. A fresh result without an error is stored under the normalized domain,
  and any request for a domain with the same normal form whose clock is less than 15
  minutes after the time of storing is answered from the cache, with \<open>cached: true\<close>, the
  stored value and no remote call. Every entry of the cache of a state the server can
  reach is free of errors on both branches.
\<close>

theorem cache_only_error_free:
  "(check e w input s = (CheckResult dn False v, s', evs) \<and>
    (spamhaus_error (spamhaus v) \<noteq> None \<or> wayback_error (wayback v) \<noteq> None) \<longrightarrow>
      checkCache s' = checkCache s) \<and>
   (check e w input s = (CheckResult dn False v, s', evs) \<and>
    spamhaus_error (spamhaus v) = None \<and> wayback_error (wayback v) = None \<longrightarrow>
      checkCache s' dn = Some \<lparr> ts = now_store w, cached_value = v \<rparr> \<and>
      (normalizeDomain input2 = Some dn \<and> now_lookup w2 - now_store w < 15 * 60 * 1000 \<longrightarrow>
         check e2 w2 input2 s' = (CheckResult dn True v, s', []))) \<and>
   (reachable e s \<and> checkCache s d = Some c \<longrightarrow>
      spamhaus_error (spamhaus (cached_value c)) = None \<and>
      wayback_error (wayback (cached_value c)) = None)"
proof -
  have err: "checkCache s' = checkCache s"
    if "check e w input s = (CheckResult dn False v, s', evs)"
      and "spamhaus_error (spamhaus v) \<noteq> None \<or> wayback_error (wayback v) \<noteq> None"
    using check_fresh [OF that(1)] hasError_iff [of v] that(2) by auto
  have ok: "checkCache s' dn = Some \<lparr> ts = now_store w, cached_value = v \<rparr> \<and>
      (normalizeDomain input2 = Some dn \<and> now_lookup w2 - now_store w < 15 * 60 * 1000 \<longrightarrow>
         check e2 w2 input2 s' = (CheckResult dn True v, s', []))"
    if c: "check e w input s = (CheckResult dn False v, s', evs)"
      and n: "spamhaus_error (spamhaus v) = None" "wayback_error (wayback v) = None"
  proof -
    from check_fresh [OF c] hasError_iff [of v] n
    have stored: "checkCache s' dn = Some \<lparr> ts = now_store w, cached_value = v \<rparr>"
      by auto
    have "check e2 w2 input2 s' = (CheckResult dn True v, s', [])"
      if "normalizeDomain input2 = Some dn" and "now_lookup w2 - now_store w < 15 * 60 * 1000"
      using check_cached [OF that(1) stored, of w2 e2] that(2) by (simp add: CHECK_TTL_MS_def)
    with stored show ?thesis by blast
  qed
  from err ok reachable_cache_error_free [of e s d c] show ?thesis by blast
qed

lemma fetch_first_answer:
  assumes "net 0 = Responded st txt js" and "st < 429"
  shows "fetchJsonWithRetry ep retries net =
           (Inr \<lparr> res_status = st, text_of = txt, json_of = (if txt \<noteq> [] then js else None) \<rparr>,
            [Fetch ep])"
  unfolding fetchJsonWithRetry_def using assms by (subst fetch_loop.simps) simp

lemma fetch_lookup_503:
  "fetchJsonWithRetry LookupCall 1 (always_503 :: nat \<Rightarrow> string outcome) =
     (Inr \<lparr> res_status = 503, text_of = [], json_of = None \<rparr>,
      [Fetch LookupCall, Sleep 250, Fetch LookupCall])"
  by code_simp

lemma example_domain:
  "normalizeDomain (Some ''https://Example.com/path?x=1'') = Some ''example.com''"
  "normalizeDomain (Some ''EXAMPLE.com.'') = Some ''example.com''"
  by code_simp+

lemma example_wayback:
  "checkWayback (avail_answer ''20260212093000'') (cdx_answer 278) dn =
     (WaybackOk True (Some (SnapCount 278)) (Some ''2026-02-12'')
        (''https://web.archive.org/web/*/'' @ dn),
      [Fetch AvailabilityCall, Fetch CdxCall])"
  by (simp add: checkWayback_def Let_def fetch_first_answer [of _ 200] avail_answer_def cdx_answer_def
      closest_of_def catch_null_def cdx_snapshots_def res_ok_def)

lemma example_not_listed:
  "checkSpamhaus env_with_key n1 lnet n2 (always_status 404) cur =
     (Inr SpamNotListed, cur, [Fetch LookupCall])"
  by (simp add: checkSpamhaus_def token_from_key or_else_def fetch_always_status)

lemma example_unavailable:
  "checkSpamhaus env_with_key n1 lnet n2 always_503 cur =
     (Inr (SpamError (''HTTP '' @ show_nat 503 @ '' '')), cur,
      [Fetch LookupCall, Sleep 250, Fetch LookupCall])"
  by (simp add: checkSpamhaus_def token_from_key or_else_def fetch_lookup_503 [unfolded One_nat_def])

lemma show_503: "show_nat 503 = ''503''"
  by code_simp

theorem cache_only_error_free_witness:
  "fst (check env_with_key (example_world 1000 (always_status 404))
       (Some ''https://Example.com/path?x=1'') empty_state) =
     CheckResult ''example.com'' False
       \<lparr> spamhaus = SpamNotListed,
       wayback = WaybackOk True (Some (SnapCount 278)) (Some ''2026-02-12'')
                   ''https://web.archive.org/web/*/example.com'' \<rparr> \<and>
   checkCache (fst (snd (check env_with_key (example_world 1000 (always_status 404))
       (Some ''https://Example.com/path?x=1'') empty_state))) ''example.com'' =
     Some \<lparr> ts = 1500, cached_value =
       \<lparr> spamhaus = SpamNotListed,
       wayback = WaybackOk True (Some (SnapCount 278)) (Some ''2026-02-12'')
                   ''https://web.archive.org/web/*/example.com'' \<rparr> \<rparr> \<and>
   snd (snd (check env_with_key (example_world 1000 (always_status 404))
       (Some ''https://Example.com/path?x=1'') empty_state)) = [Fetch LookupCall, Fetch AvailabilityCall, Fetch CdxCall] \<and>
   normalizeDomain (Some ''EXAMPLE.com.'') = Some ''example.com'' \<and>
   now_lookup (example_world 900000 always_503) -
     now_store (example_world 1000 (always_status 404)) < 15 * 60 * 1000 \<and>
   check env_with_login (example_world 900000 always_503) (Some ''EXAMPLE.com.'')
     (fst (snd (check env_with_key (example_world 1000 (always_status 404))
       (Some ''https://Example.com/path?x=1'') empty_state))) =
     (CheckResult ''example.com'' True
       \<lparr> spamhaus = SpamNotListed,
       wayback = WaybackOk True (Some (SnapCount 278)) (Some ''2026-02-12'')
                   ''https://web.archive.org/web/*/example.com'' \<rparr>,
      fst (snd (check env_with_key (example_world 1000 (always_status 404))
       (Some ''https://Example.com/path?x=1'') empty_state)), []) \<and>
   fst (check env_with_key (example_world 1000 always_503) (Some ''https://Example.com/path?x=1'')
       empty_state) =
     CheckResult ''example.com'' False
       \<lparr> spamhaus = SpamError ''HTTP 503 '',
       wayback = WaybackOk True (Some (SnapCount 278)) (Some ''2026-02-12'')
                   ''https://web.archive.org/web/*/example.com'' \<rparr> \<and>
   checkCache (fst (snd (check env_with_key (example_world 1000 always_503) (Some ''https://Example.com/path?x=1'')
       empty_state))) = checkCache empty_state \<and>
   reachable env_with_key (fst (snd (check env_with_key (example_world 1000 (always_status 404))
       (Some ''https://Example.com/path?x=1'') empty_state))) \<and>
   spamhaus_error (spamhaus (cached_value
     \<lparr> ts = 1500, cached_value =
       \<lparr> spamhaus = SpamNotListed,
       wayback = WaybackOk True (Some (SnapCount 278)) (Some ''2026-02-12'')
                   ''https://web.archive.org/web/*/example.com'' \<rparr> \<rparr>)) = None"
proof -
  let ?v0 = "\<lparr> spamhaus = SpamNotListed,
       wayback = WaybackOk True (Some (SnapCount 278)) (Some ''2026-02-12'')
                   ''https://web.archive.org/web/*/example.com'' \<rparr>"
  let ?ve = "\<lparr> spamhaus = SpamError ''HTTP 503 '',
       wayback = WaybackOk True (Some (SnapCount 278)) (Some ''2026-02-12'')
                   ''https://web.archive.org/web/*/example.com'' \<rparr>"
  let ?c1 = "check env_with_key (example_world 1000 (always_status 404))
       (Some ''https://Example.com/path?x=1'') empty_state"
  let ?c3 = "check env_with_key (example_world 1000 always_503) (Some ''https://Example.com/path?x=1'')
       empty_state"
  let ?s1 = "fst (snd ?c1)"
  note T = cache_only_error_free
  have r1: "fst ?c1 = CheckResult ''example.com'' False ?v0"
    by (simp add: check_def example_domain example_world_def example_not_listed example_wayback
        empty_state_def Let_def)
  have e1: "snd (snd ?c1) = [Fetch LookupCall, Fetch AvailabilityCall, Fetch CdxCall]"
    by (simp add: check_def example_domain example_world_def example_not_listed example_wayback
        empty_state_def Let_def)
  have c1: "?c1 = (CheckResult ''example.com'' False ?v0, ?s1, snd (snd ?c1))"
    by (simp add: r1 [symmetric])
  have n1: "spamhaus_error (spamhaus ?v0) = None \<and> wayback_error (wayback ?v0) = None"
    by simp
  note ok = T [where e = env_with_key and w = "example_world 1000 (always_status 404)"
                 and input = "Some ''https://Example.com/path?x=1''" and s = empty_state
                 and dn = "''example.com''" and v = ?v0 and s' = ?s1 and evs = "snd (snd ?c1)"
                 and ?input2.0 = "Some ''EXAMPLE.com.''" and ?w2.0 = "example_world 900000 always_503"
                 and ?e2.0 = env_with_login,
               THEN conjunct2, THEN conjunct1, THEN mp, OF conjI [OF c1 n1]]
  have stored: "checkCache ?s1 ''example.com'' = Some \<lparr> ts = 1500, cached_value = ?v0 \<rparr>"
    using ok [THEN conjunct1] by (simp add: example_world_def)
  have d2: "normalizeDomain (Some ''EXAMPLE.com.'') = Some ''example.com''"
    by (rule example_domain)
  have t2: "now_lookup (example_world 900000 always_503) -
      now_store (example_world 1000 (always_status 404)) < 15 * 60 * 1000"
    by (simp add: example_world_def)
  have second: "check env_with_login (example_world 900000 always_503) (Some ''EXAMPLE.com.'') ?s1 =
      (CheckResult ''example.com'' True ?v0, ?s1, [])"
    by (rule ok [THEN conjunct2, THEN mp, OF conjI [OF d2 t2]])
  have r3: "fst ?c3 = CheckResult ''example.com'' False ?ve"
    by (simp add: check_def example_domain example_world_def example_unavailable example_wayback
        empty_state_def Let_def show_503)
  have c3: "?c3 = (CheckResult ''example.com'' False ?ve, fst (snd ?c3), snd (snd ?c3))"
    by (simp add: r3 [symmetric])
  have n3: "spamhaus_error (spamhaus ?ve) \<noteq> None \<or> wayback_error (wayback ?ve) \<noteq> None"
    by simp
  have kept: "checkCache (fst (snd ?c3)) = checkCache empty_state"
    by (rule T [where e = env_with_key and w = "example_world 1000 always_503"
                 and input = "Some ''https://Example.com/path?x=1''" and s = empty_state
                 and dn = "''example.com''" and v = ?ve and s' = "fst (snd ?c3)"
                 and evs = "snd (snd ?c3)",
               THEN conjunct1, THEN mp, OF conjI [OF c3 n3]])
  have "reachable env_with_key empty_state"
    unfolding empty_state_def by (rule reachable.start)
  then have reach: "reachable env_with_key ?s1"
    using c1 by (rule reachable.request)
  have free: "spamhaus_error (spamhaus (cached_value \<lparr> ts = 1500, cached_value = ?v0 \<rparr>)) = None"
    by (rule T [where e = env_with_key and s = ?s1 and d = "''example.com''"
                  and c = "\<lparr> ts = 1500, cached_value = ?v0 \<rparr>",
                THEN conjunct2, THEN conjunct2, THEN mp, OF conjI [OF reach stored], THEN conjunct1])
  from r1 stored e1 d2 t2 second r3 kept reach free show ?thesis
    by (intro conjI)
qed

end
